theory Spec2Isabelle
  imports Complex_Main "HOL-Library.Multiset" "HOL-Library.Log_Nat"
begin

section \<open>The professors query service\<close>

text \<open>
  A shallow embedding of \<^verbatim>\<open>src/professors/professors.service.ts\<close> (the class
  \<^verbatim>\<open>ProfessorsService\<close>) together with the constraints that
  \<^verbatim>\<open>src/professors/dto/search-professor.dto.ts\<close> puts on its input.

  The service is a thin layer over a Prisma client. The store is a snapshot:
  a list of professor rows, each carrying its related rows. The two service
  methods are functions of that snapshot; an exception is the \<open>Inl\<close> of a sum.

  Numbers: ids, counts, page and limit are JavaScript numbers holding integers
  and are modelled by \<^typ>\<open>int\<close>; ratings are modelled by \<^typ>\<open>rat\<close>. The
  arithmetic of the service on them is the arithmetic of doubles: the offset
  \<^verbatim>\<open>(parsedPage - 1) * parsedLimit\<close> is rounded as a double rounds it (\<open>js_double\<close>), and
  \<^verbatim>\<open>Math.ceil(total / parsedLimit)\<close> keeps its non-finite results. The store has its own
  ranges: the ids and \<open>reviewCount\<close> are \<^verbatim>\<open>Int\<close> columns of 32 bits, \<^verbatim>\<open>skip\<close> and \<^verbatim>\<open>take\<close>
  are integers of 64 bits, and the client raises an error for a value outside them.
\<close>

subsection \<open>Stored entities\<close>

record University =
  uni_id :: int
  uni_name :: string
  uni_acronym :: string
  uni_department :: "string option"

record Faculty =
  fac_id :: int
  fac_name :: string

record Course =
  course_id :: int
  course_name :: string

record Tag =
  tag_id :: int
  tag_name :: string
  tag_type :: string

text \<open>Join rows, each loaded with the record it points to (\<^verbatim>\<open>include: { university: true }\<close> ...).\<close>

record UniversityRelation =
  rel_universityId :: int
  rel_university :: University

record FacultyRelation =
  rel_facultyId :: int
  rel_faculty :: Faculty

record CourseRelation =
  rel_course :: Course

record TagRelation =
  rel_tag :: Tag

record ReviewWithCourse =
  review_id :: int
  overallRating :: int
  teachingQuality :: int
  difficultyLevel :: int
  mandatoryAttendance :: bool
  classInterest :: int
  detailedComment :: string
  gradeObtained :: string
  createdAt :: int
  visibilityStatus :: string
  review_course :: Course

text \<open>A professor row of the store, with every relation it has.\<close>

record Professor =
  prof_id :: int
  prof_fullName :: string
  prof_averageRating :: rat
  prof_reviewCount :: int
  prof_universities :: "UniversityRelation list"
  prof_faculties :: "FacultyRelation list"
  prof_courses :: "CourseRelation list"
  prof_tags :: "TagRelation list"
  prof_reviews :: "ReviewWithCourse list"

text \<open>
  What a query hands to the service (\<^verbatim>\<open>ProfessorWithRelations\<close>): a relation that
  the query did not include is \<^verbatim>\<open>undefined\<close>, here \<open>None\<close>.
\<close>

record ProfessorWithRelations =
  pid :: int
  fullName :: string
  averageRating :: rat
  reviewCount :: int
  universities :: "UniversityRelation list option"
  faculties :: "FacultyRelation list option"
  courses :: "CourseRelation list option"
  tags :: "TagRelation list option"
  reviews :: "ReviewWithCourse list option"

subsection \<open>Search criteria\<close>

text \<open>
  \<^verbatim>\<open>SearchProfessorDto\<close>: every field is optional (\<^verbatim>\<open>undefined\<close> is \<open>None\<close>). The
  global \<^verbatim>\<open>ValidationPipe\<close> (\<^verbatim>\<open>transform: true\<close>) has already turned the numeric
  fields into numbers, so \<^verbatim>\<open>Number(x)\<close> in the service is the identity on them.
\<close>

record SearchProfessorDto =
  name :: "string option"
  universityId :: "int option"
  facultyId :: "int option"
  department :: "string option"
  minRating :: "rat option"
  maxRating :: "rat option"
  minReviews :: "int option"
  page :: "int option"
  limit :: "int option"

text \<open>The decorators of the DTO: \<^verbatim>\<open>@Min\<close>, \<^verbatim>\<open>@Max\<close> (an absent field passes, \<^verbatim>\<open>@IsOptional\<close>).\<close>

definition in_range :: "'a::linorder \<Rightarrow> 'a \<Rightarrow> 'a option \<Rightarrow> bool" where
  "in_range lo hi v = (case v of None \<Rightarrow> True | Some x \<Rightarrow> lo \<le> x \<and> x \<le> hi)"

definition at_least :: "'a::linorder \<Rightarrow> 'a option \<Rightarrow> bool" where
  "at_least lo v = (case v of None \<Rightarrow> True | Some x \<Rightarrow> lo \<le> x)"

definition valid_dto :: "SearchProfessorDto \<Rightarrow> bool" where
  "valid_dto searchDto =
     (in_range 0 5 (minRating searchDto) \<and>
      in_range 0 5 (maxRating searchDto) \<and>
      at_least 0 (minReviews searchDto) \<and>
      at_least 1 (page searchDto) \<and>
      in_range 1 100 (limit searchDto))"

subsection \<open>Prisma filters\<close>

datatype QueryMode = Default | Insensitive

record StringFilter =
  contains :: string
  mode :: QueryMode

record FloatFilter =
  float_gte :: "rat option"
  float_lte :: "rat option"

record IntFilter =
  int_gte :: "int option"

record UniversityWhereInput =
  wh_department :: "StringFilter option"

record ProfessorUniversityWhereInput =
  wh_universityId :: "int option"
  wh_university :: "UniversityWhereInput option"

record ProfessorFacultyWhereInput =
  wh_facultyId :: "int option"

text \<open>A list relation filter; the service only ever builds \<^verbatim>\<open>{ some: ... }\<close>.\<close>

datatype 'a ListRelationFilter = RelSome 'a

record ProfessorWhereInput =
  where_fullName :: "StringFilter option"
  where_averageRating :: "FloatFilter option"
  where_reviewCount :: "IntFilter option"
  where_universities :: "ProfessorUniversityWhereInput ListRelationFilter option"
  where_faculties :: "ProfessorFacultyWhereInput ListRelationFilter option"

text \<open>
  The meaning of a filter on a row is the store's contract (spec, section 6):
  conjunction of the fields that are set; \<^verbatim>\<open>some\<close> asks for one related row
  satisfying all of the nested conditions.

  \<^verbatim>\<open>contains\<close> is the store's pattern match \<^verbatim>\<open>LIKE '%text%'\<close> (\<^verbatim>\<open>ILIKE\<close> under
  \<^verbatim>\<open>mode: 'insensitive'\<close>): the search text is not escaped, so a \<^verbatim>\<open>%\<close> in it matches any
  run of characters and a \<^verbatim>\<open>_\<close> any one character; on a text without them it is
  substring containment. It is false on a null column. The case folding of the model
  covers the ASCII letters; the store's folding of other letters and the backslash
  escape of its patterns are not modelled.
\<close>

fun sql_like :: "string \<Rightarrow> string \<Rightarrow> bool" where
  "sql_like [] [] = True"
| "sql_like [] (c # cs) = False"
| "sql_like (p # ps) [] = (p = CHR ''%'' \<and> sql_like ps [])"
| "sql_like (p # ps) (c # cs) =
     (if p = CHR ''%'' then sql_like ps (c # cs) \<or> sql_like (p # ps) cs
      else (p = CHR ''_'' \<or> p = c) \<and> sql_like ps cs)"

definition toLower :: "char \<Rightarrow> char" where
  "toLower c = (let n = (of_char c :: nat) in
                if 65 \<le> n \<and> n \<le> 90 then char_of (n + 32) else c)"

definition StringFilter_matches :: "StringFilter \<Rightarrow> string option \<Rightarrow> bool" where
  "StringFilter_matches f v =
     (case v of
        None \<Rightarrow> False
      | Some s \<Rightarrow>
          (case mode f of
             Insensitive \<Rightarrow>
               sql_like (''%'' @ map toLower (contains f) @ ''%'') (map toLower s)
           | Default \<Rightarrow> sql_like (''%'' @ contains f @ ''%'') s))"

definition FloatFilter_matches :: "FloatFilter \<Rightarrow> rat \<Rightarrow> bool" where
  "FloatFilter_matches f x =
     ((case float_gte f of None \<Rightarrow> True | Some b \<Rightarrow> b \<le> x) \<and>
      (case float_lte f of None \<Rightarrow> True | Some b \<Rightarrow> x \<le> b))"

definition IntFilter_matches :: "IntFilter \<Rightarrow> int \<Rightarrow> bool" where
  "IntFilter_matches f x = (case int_gte f of None \<Rightarrow> True | Some b \<Rightarrow> b \<le> x)"

definition University_matches :: "UniversityWhereInput \<Rightarrow> University \<Rightarrow> bool" where
  "University_matches w u =
     (case wh_department w of
        None \<Rightarrow> True
      | Some f \<Rightarrow> StringFilter_matches f (uni_department u))"

definition ProfessorUniversity_matches ::
  "ProfessorUniversityWhereInput \<Rightarrow> UniversityRelation \<Rightarrow> bool" where
  "ProfessorUniversity_matches w rel =
     ((case wh_universityId w of None \<Rightarrow> True | Some i \<Rightarrow> rel_universityId rel = i) \<and>
      (case wh_university w of None \<Rightarrow> True | Some uw \<Rightarrow> University_matches uw (rel_university rel)))"

definition ProfessorFaculty_matches ::
  "ProfessorFacultyWhereInput \<Rightarrow> FacultyRelation \<Rightarrow> bool" where
  "ProfessorFaculty_matches w rel =
     (case wh_facultyId w of None \<Rightarrow> True | Some i \<Rightarrow> rel_facultyId rel = i)"

fun ListRelation_matches :: "('w \<Rightarrow> 'r \<Rightarrow> bool) \<Rightarrow> 'w ListRelationFilter \<Rightarrow> 'r list \<Rightarrow> bool" where
  "ListRelation_matches m (RelSome w) rows = list_ex (m w) rows"

definition Professor_matches :: "ProfessorWhereInput \<Rightarrow> Professor \<Rightarrow> bool" where
  "Professor_matches w p =
     ((case where_fullName w of
         None \<Rightarrow> True | Some f \<Rightarrow> StringFilter_matches f (Some (prof_fullName p))) \<and>
      (case where_averageRating w of
         None \<Rightarrow> True | Some f \<Rightarrow> FloatFilter_matches f (prof_averageRating p)) \<and>
      (case where_reviewCount w of
         None \<Rightarrow> True | Some f \<Rightarrow> IntFilter_matches f (prof_reviewCount p)) \<and>
      (case where_universities w of
         None \<Rightarrow> True
       | Some f \<Rightarrow> ListRelation_matches ProfessorUniversity_matches f (prof_universities p)) \<and>
      (case where_faculties w of
         None \<Rightarrow> True
       | Some f \<Rightarrow> ListRelation_matches ProfessorFaculty_matches f (prof_faculties p)))"

subsection \<open>Store operations\<close>

datatype error = NotFoundException int | TypeError | PrismaClientError

text \<open>The range of an \<^verbatim>\<open>Int\<close> column (32 bits) and of \<^verbatim>\<open>skip\<close> and \<^verbatim>\<open>take\<close> (64 bits).\<close>

definition in_int32 :: "int \<Rightarrow> bool" where
  "in_int32 n = (- (2 ^ 31) \<le> n \<and> n \<le> 2 ^ 31 - 1)"

definition in_int64 :: "int \<Rightarrow> bool" where
  "in_int64 n = (- (2 ^ 63) \<le> n \<and> n \<le> 2 ^ 63 - 1)"

definition opt_in_int32 :: "int option \<Rightarrow> bool" where
  "opt_in_int32 v = (case v of None \<Rightarrow> True | Some n \<Rightarrow> in_int32 n)"

text \<open>
  The client raises an error for a filter that compares an \<^verbatim>\<open>Int\<close> column
  (\<open>reviewCount\<close>, \<open>universityId\<close>, \<open>facultyId\<close>) with a number outside its range.
\<close>

definition where_in_range :: "ProfessorWhereInput \<Rightarrow> bool" where
  "where_in_range wh =
     (opt_in_int32 (case where_reviewCount wh of None \<Rightarrow> None | Some f \<Rightarrow> int_gte f) \<and>
      opt_in_int32
        (case where_universities wh of None \<Rightarrow> None | Some (RelSome w) \<Rightarrow> wh_universityId w) \<and>
      opt_in_int32
        (case where_faculties wh of None \<Rightarrow> None | Some (RelSome w) \<Rightarrow> wh_facultyId w))"

text \<open>\<^verbatim>\<open>prisma.professor.count({ where })\<close>: the matching rows, no window.\<close>

definition professor_count :: "ProfessorWhereInput \<Rightarrow> Professor list \<Rightarrow> error + int" where
  "professor_count wh db =
     (if where_in_range wh then Inr (int (length (filter (Professor_matches wh) db)))
      else Inl PrismaClientError)"

text \<open>
  \<^verbatim>\<open>orderBy: { averageRating: 'desc' }\<close>. The store leaves the order of ties open; the
  model keeps ties in the order of the snapshot.
\<close>

definition orderBy_averageRating_desc :: "Professor list \<Rightarrow> Professor list" where
  "orderBy_averageRating_desc ps = sort_key (\<lambda>p. - prof_averageRating p) ps"

text \<open>
  \<^verbatim>\<open>skip\<close> and \<^verbatim>\<open>take\<close>: the client rejects a \<^verbatim>\<open>skip\<close> that is negative or does not fit
  64 bits and a \<^verbatim>\<open>take\<close> that does not fit 64 bits; it reads a negative \<^verbatim>\<open>take\<close> from the
  end of the list.
\<close>

definition window :: "int \<Rightarrow> int \<Rightarrow> 'a list \<Rightarrow> error + 'a list" where
  "window skip tk xs =
     (if skip < 0 \<or> \<not> in_int64 skip \<or> \<not> in_int64 tk then Inl PrismaClientError
      else if tk < 0 then Inr (rev (take (nat (- tk)) (drop (nat skip) (rev xs))))
      else Inr (take (nat tk) (drop (nat skip) xs)))"

text \<open>The \<^verbatim>\<open>include\<close> of \<^verbatim>\<open>findAll\<close>: universities and faculties, nothing else.\<close>

definition include_summary :: "Professor \<Rightarrow> ProfessorWithRelations" where
  "include_summary p =
     \<lparr>pid = prof_id p, fullName = prof_fullName p,
      averageRating = prof_averageRating p, reviewCount = prof_reviewCount p,
      universities = Some (prof_universities p),
      faculties = Some (prof_faculties p),
      courses = None, tags = None, reviews = None\<rparr>"

definition professor_findMany ::
  "ProfessorWhereInput \<Rightarrow> int \<Rightarrow> int \<Rightarrow> Professor list \<Rightarrow> error + ProfessorWithRelations list" where
  "professor_findMany wh skip tk db =
     (if \<not> where_in_range wh then Inl PrismaClientError
      else
        (case window skip tk (orderBy_averageRating_desc (filter (Professor_matches wh) db)) of
           Inl e \<Rightarrow> Inl e
         | Inr ps \<Rightarrow> Inr (map include_summary ps)))"

text \<open>
  The \<^verbatim>\<open>include\<close> of \<^verbatim>\<open>findOne\<close>: every relation; the reviews filtered by
  \<^verbatim>\<open>where: { visibilityStatus: 'visible' }\<close> and ordered by
  \<^verbatim>\<open>orderBy: { createdAt: 'desc' }\<close> (ties in snapshot order).
\<close>

definition visible_reviews :: "ReviewWithCourse list \<Rightarrow> ReviewWithCourse list" where
  "visible_reviews rs =
     sort_key (\<lambda>r. - createdAt r) (filter (\<lambda>r. visibilityStatus r = ''visible'') rs)"

definition include_detail :: "Professor \<Rightarrow> ProfessorWithRelations" where
  "include_detail p =
     \<lparr>pid = prof_id p, fullName = prof_fullName p,
      averageRating = prof_averageRating p, reviewCount = prof_reviewCount p,
      universities = Some (prof_universities p),
      faculties = Some (prof_faculties p),
      courses = Some (prof_courses p),
      tags = Some (prof_tags p),
      reviews = Some (visible_reviews (prof_reviews p))\<rparr>"

text \<open>
  \<^verbatim>\<open>prisma.professor.findUnique({ where: { id } , include })\<close>; \<^verbatim>\<open>null\<close> is \<open>None\<close>. The id
  is an \<^verbatim>\<open>Int\<close> column: the ids of the stored rows are within its range, so an id
  outside it finds no row, and the client raises an error for it.
\<close>

definition professor_findUnique ::
  "int \<Rightarrow> Professor list \<Rightarrow> error + ProfessorWithRelations option" where
  "professor_findUnique i db =
     (case find (\<lambda>p. prof_id p = i) db of
        Some p \<Rightarrow> Inr (Some (include_detail p))
      | None \<Rightarrow> if in_int32 i then Inr None else Inl PrismaClientError)"

subsection \<open>Response shapes\<close>

record UniversityDto =
  ud_id :: int
  ud_name :: string
  ud_acronym :: string

record FacultyDto =
  fd_id :: int
  fd_name :: string

record CourseDto =
  cd_id :: int
  cd_name :: string

record TagDto =
  td_id :: int
  td_name :: string
  td_type :: string

record ReviewDto =
  rd_id :: int
  rd_overallRating :: int
  rd_teachingQuality :: int
  rd_difficultyLevel :: int
  rd_mandatoryAttendance :: bool
  rd_classInterest :: int
  rd_detailedComment :: string
  rd_gradeObtained :: string
  rd_createdAt :: int
  rd_course :: CourseDto

record ProfessorResponseDto =
  res_id :: int
  res_fullName :: string
  res_averageRating :: rat
  res_reviewCount :: int
  res_universities :: "UniversityDto list"
  res_faculties :: "FacultyDto list"

record ProfessorDetailResponseDto = ProfessorResponseDto +
  res_courses :: "CourseDto list"
  res_tags :: "TagDto list"
  res_reviews :: "ReviewDto list"

text \<open>
  The result of a JavaScript division, and \<^verbatim>\<open>Math.ceil\<close> of it. The quotient is kept
  exact: for a count \<open>0 \<le> a < 2^53\<close> and a limit \<open>b \<ge> 1\<close> the double nearest to \<open>a / b\<close>
  has the ceiling of \<open>a / b\<close>.
\<close>

datatype js_number = Finite rat | PosInfinity | NegInfinity | NaN

definition js_div :: "int \<Rightarrow> int \<Rightarrow> js_number" where
  "js_div a b =
     (if b = 0 then (if a = 0 then NaN else if 0 < a then PosInfinity else NegInfinity)
      else Finite (of_int a / of_int b))"

fun Math_ceil :: "js_number \<Rightarrow> js_number" where
  "Math_ceil (Finite q) = Finite (of_int \<lceil>q\<rceil>)"
| "Math_ceil x = x"

record PaginationMeta =
  meta_total :: int
  meta_page :: int
  meta_lastPage :: js_number
  meta_limit :: int

record PaginatedProfessorsResponseDto =
  data :: "ProfessorResponseDto list"
  meta :: PaginationMeta

subsection \<open>The service: \<^verbatim>\<open>findAll\<close>\<close>

text \<open>JavaScript truthiness of an optional number and of an optional string.\<close>

definition truthy_number :: "int option \<Rightarrow> bool" where
  "truthy_number v = (case v of None \<Rightarrow> False | Some n \<Rightarrow> n \<noteq> 0)"

definition truthy_string :: "string option \<Rightarrow> bool" where
  "truthy_string v = (case v of None \<Rightarrow> False | Some s \<Rightarrow> s \<noteq> [])"

text \<open>\<^verbatim>\<open>page = 1\<close>, \<^verbatim>\<open>limit = 20\<close> in the destructuring, then \<^verbatim>\<open>Number(...)\<close>.\<close>

definition parsedPage :: "SearchProfessorDto \<Rightarrow> int" where
  "parsedPage searchDto = (case page searchDto of None \<Rightarrow> 1 | Some p \<Rightarrow> p)"

definition parsedLimit :: "SearchProfessorDto \<Rightarrow> int" where
  "parsedLimit searchDto = (case limit searchDto of None \<Rightarrow> 20 | Some l \<Rightarrow> l)"

text \<open>\<^verbatim>\<open>universityId ? Number(universityId) : undefined\<close>, and the same for the faculty.\<close>

definition parsedUniversityId :: "SearchProfessorDto \<Rightarrow> int option" where
  "parsedUniversityId searchDto =
     (if truthy_number (universityId searchDto) then universityId searchDto else None)"

definition parsedFacultyId :: "SearchProfessorDto \<Rightarrow> int option" where
  "parsedFacultyId searchDto =
     (if truthy_number (facultyId searchDto) then facultyId searchDto else None)"

text \<open>\<^verbatim>\<open>minRating !== undefined ? Number(minRating) : undefined\<close>: a test for presence.\<close>

definition parsedMinRating :: "SearchProfessorDto \<Rightarrow> rat option" where
  "parsedMinRating searchDto = minRating searchDto"

definition parsedMaxRating :: "SearchProfessorDto \<Rightarrow> rat option" where
  "parsedMaxRating searchDto = maxRating searchDto"

definition parsedMinReviews :: "SearchProfessorDto \<Rightarrow> int option" where
  "parsedMinReviews searchDto = minReviews searchDto"

definition universityFilter ::
  "SearchProfessorDto \<Rightarrow> ProfessorUniversityWhereInput ListRelationFilter option" where
  "universityFilter searchDto =
     (if truthy_number (parsedUniversityId searchDto)
      then Some (RelSome \<lparr>wh_universityId = parsedUniversityId searchDto, wh_university = None\<rparr>)
      else None)"

definition facultyFilter ::
  "SearchProfessorDto \<Rightarrow> ProfessorFacultyWhereInput ListRelationFilter option" where
  "facultyFilter searchDto =
     (if truthy_number (parsedFacultyId searchDto)
      then Some (RelSome \<lparr>wh_facultyId = parsedFacultyId searchDto\<rparr>)
      else None)"

definition departmentFilter ::
  "SearchProfessorDto \<Rightarrow> ProfessorUniversityWhereInput ListRelationFilter option" where
  "departmentFilter searchDto =
     (case department searchDto of
        None \<Rightarrow> None
      | Some d \<Rightarrow>
          if truthy_string (Some d)
          then Some (RelSome
                 \<lparr>wh_universityId = None,
                  wh_university =
                    Some \<lparr>wh_department = Some \<lparr>contains = d, mode = Insensitive\<rparr>\<rparr>\<rparr>)
          else None)"

text \<open>
  The filter object \<^verbatim>\<open>where\<close>, built by the assignments of the source in their
  order. Both \<open>universityFilter\<close> and \<open>departmentFilter\<close> are assigned to
  \<^verbatim>\<open>where.universities\<close>.
\<close>

definition where_name :: "SearchProfessorDto \<Rightarrow> ProfessorWhereInput \<Rightarrow> ProfessorWhereInput" where
  "where_name searchDto wh =
     (case name searchDto of
        None \<Rightarrow> wh
      | Some n \<Rightarrow>
          if truthy_string (Some n)
          then wh\<lparr>where_fullName := Some \<lparr>contains = n, mode = Insensitive\<rparr>\<rparr>
          else wh)"

definition where_rating :: "SearchProfessorDto \<Rightarrow> ProfessorWhereInput \<Rightarrow> ProfessorWhereInput" where
  "where_rating searchDto wh =
     (if parsedMinRating searchDto \<noteq> None \<or> parsedMaxRating searchDto \<noteq> None
      then
        (let f0 = \<lparr>float_gte = None, float_lte = None\<rparr>;
             f1 = (case parsedMinRating searchDto of
                     None \<Rightarrow> f0 | Some b \<Rightarrow> f0\<lparr>float_gte := Some b\<rparr>);
             f2 = (case parsedMaxRating searchDto of
                     None \<Rightarrow> f1 | Some b \<Rightarrow> f1\<lparr>float_lte := Some b\<rparr>)
         in wh\<lparr>where_averageRating := Some f2\<rparr>)
      else wh)"

definition where_reviews :: "SearchProfessorDto \<Rightarrow> ProfessorWhereInput \<Rightarrow> ProfessorWhereInput" where
  "where_reviews searchDto wh =
     (case parsedMinReviews searchDto of
        None \<Rightarrow> wh
      | Some b \<Rightarrow> wh\<lparr>where_reviewCount := Some \<lparr>int_gte = Some b\<rparr>\<rparr>)"

definition where_relations :: "SearchProfessorDto \<Rightarrow> ProfessorWhereInput \<Rightarrow> ProfessorWhereInput" where
  "where_relations searchDto wh =
     (let w1 = (case universityFilter searchDto of
                  None \<Rightarrow> wh | Some f \<Rightarrow> wh\<lparr>where_universities := Some f\<rparr>);
          w2 = (case facultyFilter searchDto of
                  None \<Rightarrow> w1 | Some f \<Rightarrow> w1\<lparr>where_faculties := Some f\<rparr>);
          w3 = (case departmentFilter searchDto of
                  None \<Rightarrow> w2 | Some f \<Rightarrow> w2\<lparr>where_universities := Some f\<rparr>)
      in w3)"

definition findAll_where :: "SearchProfessorDto \<Rightarrow> ProfessorWhereInput" where
  "findAll_where searchDto =
     where_relations searchDto
       (where_reviews searchDto
         (where_rating searchDto
           (where_name searchDto
             \<lparr>where_fullName = None, where_averageRating = None, where_reviewCount = None,
              where_universities = None, where_faculties = None\<rparr>)))"

text \<open>
  The double nearest to an integer, ties to the even significand: the result of a
  JavaScript subtraction or multiplication whose exact result is that integer. Up to
  \<open>2^53\<close> it is the integer itself. (A result from \<open>2^1024\<close> on stands for \<^verbatim>\<open>Infinity\<close>;
  the store rejects it as it rejects \<^verbatim>\<open>Infinity\<close>.)
\<close>

definition js_double :: "int \<Rightarrow> int" where
  "js_double n =
     (if \<bar>n\<bar> < 2 ^ 53 then n
      else
        (let e = nat (bitlen \<bar>n\<bar> - 53);
             q = \<bar>n\<bar> div 2 ^ e;
             r = \<bar>n\<bar> mod 2 ^ e;
             q' = (if 2 ^ e < 2 * r \<or> (2 * r = 2 ^ e \<and> odd q) then q + 1 else q)
         in sgn n * (q' * 2 ^ e)))"

text \<open>\<^verbatim>\<open>const skip = (parsedPage - 1) * parsedLimit\<close>\<close>

definition findAll_skip :: "SearchProfessorDto \<Rightarrow> int" where
  "findAll_skip searchDto =
     js_double (js_double (parsedPage searchDto - 1) * parsedLimit searchDto)"

text \<open>
  The criteria that the store's ranges admit: the ids and \<open>minReviews\<close> within the
  \<^verbatim>\<open>Int\<close> column, the offset within 64 bits.
\<close>

definition ids_within_column :: "SearchProfessorDto \<Rightarrow> bool" where
  "ids_within_column searchDto =
     (opt_in_int32 (universityId searchDto) \<and>
      opt_in_int32 (facultyId searchDto) \<and>
      opt_in_int32 (minReviews searchDto))"

definition within_store_ranges :: "SearchProfessorDto \<Rightarrow> bool" where
  "within_store_ranges searchDto =
     (ids_within_column searchDto \<and> findAll_skip searchDto \<le> 2 ^ 63 - 1)"

subsection \<open>The projectors\<close>

text \<open>
  \<^verbatim>\<open>professor.universities.map(...)\<close> on an \<^verbatim>\<open>undefined\<close> array throws a
  \<^verbatim>\<open>TypeError\<close>; \<^verbatim>\<open>(professor.courses || []).map(...)\<close> does not.
\<close>

definition or_empty :: "'a list option \<Rightarrow> 'a list" where
  "or_empty v = (case v of None \<Rightarrow> [] | Some xs \<Rightarrow> xs)"

definition university_dto :: "UniversityRelation \<Rightarrow> UniversityDto" where
  "university_dto rel =
     \<lparr>ud_id = uni_id (rel_university rel), ud_name = uni_name (rel_university rel),
      ud_acronym = uni_acronym (rel_university rel)\<rparr>"

definition faculty_dto :: "FacultyRelation \<Rightarrow> FacultyDto" where
  "faculty_dto rel = \<lparr>fd_id = fac_id (rel_faculty rel), fd_name = fac_name (rel_faculty rel)\<rparr>"

definition course_dto :: "CourseRelation \<Rightarrow> CourseDto" where
  "course_dto rel = \<lparr>cd_id = course_id (rel_course rel), cd_name = course_name (rel_course rel)\<rparr>"

definition tag_dto :: "TagRelation \<Rightarrow> TagDto" where
  "tag_dto rel =
     \<lparr>td_id = tag_id (rel_tag rel), td_name = tag_name (rel_tag rel),
      td_type = tag_type (rel_tag rel)\<rparr>"

definition review_dto :: "ReviewWithCourse \<Rightarrow> ReviewDto" where
  "review_dto review =
     \<lparr>rd_id = review_id review,
      rd_overallRating = overallRating review,
      rd_teachingQuality = teachingQuality review,
      rd_difficultyLevel = difficultyLevel review,
      rd_mandatoryAttendance = mandatoryAttendance review,
      rd_classInterest = classInterest review,
      rd_detailedComment = detailedComment review,
      rd_gradeObtained = gradeObtained review,
      rd_createdAt = createdAt review,
      rd_course = \<lparr>cd_id = course_id (review_course review),
                   cd_name = course_name (review_course review)\<rparr>\<rparr>"

definition mapToProfessorResponse :: "ProfessorWithRelations \<Rightarrow> error + ProfessorResponseDto" where
  "mapToProfessorResponse professor =
     (case universities professor of
        None \<Rightarrow> Inl TypeError
      | Some us \<Rightarrow>
          (case faculties professor of
             None \<Rightarrow> Inl TypeError
           | Some fs \<Rightarrow>
               Inr \<lparr>res_id = pid professor,
                    res_fullName = fullName professor,
                    res_averageRating = averageRating professor,
                    res_reviewCount = reviewCount professor,
                    res_universities = map university_dto us,
                    res_faculties = map faculty_dto fs\<rparr>))"

definition mapToProfessorDetailResponse ::
  "ProfessorWithRelations \<Rightarrow> error + ProfessorDetailResponseDto" where
  "mapToProfessorDetailResponse professor =
     (case universities professor of
        None \<Rightarrow> Inl TypeError
      | Some us \<Rightarrow>
          (case faculties professor of
             None \<Rightarrow> Inl TypeError
           | Some fs \<Rightarrow>
               Inr \<lparr>res_id = pid professor,
                    res_fullName = fullName professor,
                    res_averageRating = averageRating professor,
                    res_reviewCount = reviewCount professor,
                    res_universities = map university_dto us,
                    res_faculties = map faculty_dto fs,
                    res_courses = map course_dto (or_empty (courses professor)),
                    res_tags = map tag_dto (or_empty (tags professor)),
                    res_reviews = map review_dto (or_empty (reviews professor))\<rparr>))"

text \<open>\<^verbatim>\<open>professors.map(f)\<close> where \<open>f\<close> may throw: the first exception ends the map.\<close>

fun map_throwing :: "('a \<Rightarrow> error + 'b) \<Rightarrow> 'a list \<Rightarrow> error + 'b list" where
  "map_throwing f [] = Inr []"
| "map_throwing f (x # xs) =
     (case f x of
        Inl e \<Rightarrow> Inl e
      | Inr y \<Rightarrow> (case map_throwing f xs of Inl e \<Rightarrow> Inl e | Inr ys \<Rightarrow> Inr (y # ys)))"

definition findAll :: "Professor list \<Rightarrow> SearchProfessorDto \<Rightarrow> error + PaginatedProfessorsResponseDto" where
  "findAll db searchDto =
     (let wh = findAll_where searchDto;
          skip = findAll_skip searchDto
      in case professor_count wh db of
           Inl e \<Rightarrow> Inl e
         | Inr total_count \<Rightarrow>
             (case professor_findMany wh skip (parsedLimit searchDto) db of
                Inl e \<Rightarrow> Inl e
              | Inr professors \<Rightarrow>
                  (case map_throwing mapToProfessorResponse professors of
                     Inl e \<Rightarrow> Inl e
                   | Inr ds \<Rightarrow>
                       Inr \<lparr>data = ds,
                            meta = \<lparr>meta_total = total_count,
                                    meta_page = parsedPage searchDto,
                                    meta_lastPage =
                                      Math_ceil (js_div total_count (parsedLimit searchDto)),
                                    meta_limit = parsedLimit searchDto\<rparr>\<rparr>)))"

subsection \<open>The service: \<^verbatim>\<open>findOne\<close>\<close>

definition findOne :: "Professor list \<Rightarrow> int \<Rightarrow> error + ProfessorDetailResponseDto" where
  "findOne db i =
     (let parsedId = i in
      case professor_findUnique parsedId db of
        Inl e \<Rightarrow> Inl e
      | Inr None \<Rightarrow> Inl (NotFoundException parsedId)
      | Inr (Some professor) \<Rightarrow> mapToProfessorDetailResponse professor)"

subsection \<open>Example data\<close>

text \<open>The criteria object with no field set.\<close>

definition empty_criteria :: SearchProfessorDto where
  "empty_criteria =
     \<lparr>name = None, universityId = None, facultyId = None, department = None,
      minRating = None, maxRating = None, minReviews = None, page = None, limit = None\<rparr>"

text \<open>Four professors without relations, rated 2, 5, 3 and 4.5.\<close>

definition professor_rated :: "int \<Rightarrow> rat \<Rightarrow> Professor" where
  "professor_rated i r =
     \<lparr>prof_id = i, prof_fullName = ''N'', prof_averageRating = r, prof_reviewCount = 0,
      prof_universities = [], prof_faculties = [], prof_courses = [], prof_tags = [],
      prof_reviews = []\<rparr>"

definition example_ratings :: "Professor list" where
  "example_ratings =
     [professor_rated 1 2, professor_rated 2 5, professor_rated 3 3, professor_rated 4 (9 / 2)]"

text \<open>
  The professor of the spec's example: linked to university 1 (department Math) and to
  university 2 (department Physics), with one visible review created at time 20 and one
  hidden review created at time 10.
\<close>

definition example_math :: University where
  "example_math =
     \<lparr>uni_id = 1, uni_name = ''A'', uni_acronym = ''UA'', uni_department = Some ''Math''\<rparr>"

definition example_physics :: University where
  "example_physics =
     \<lparr>uni_id = 2, uni_name = ''B'', uni_acronym = ''UB'', uni_department = Some ''Physics''\<rparr>"

definition example_review :: "int \<Rightarrow> int \<Rightarrow> string \<Rightarrow> ReviewWithCourse" where
  "example_review i t status =
     \<lparr>review_id = i, overallRating = 4, teachingQuality = 4, difficultyLevel = 3,
      mandatoryAttendance = False, classInterest = 5, detailedComment = ''ok'',
      gradeObtained = ''15'', createdAt = t, visibilityStatus = status,
      review_course = \<lparr>course_id = 1, course_name = ''C''\<rparr>\<rparr>"

definition example_professor :: Professor where
  "example_professor =
     \<lparr>prof_id = 7, prof_fullName = ''P'', prof_averageRating = 4, prof_reviewCount = 2,
      prof_universities =
        [\<lparr>rel_universityId = 1, rel_university = example_math\<rparr>,
         \<lparr>rel_universityId = 2, rel_university = example_physics\<rparr>],
      prof_faculties = [], prof_courses = [], prof_tags = [],
      prof_reviews = [example_review 1 10 ''hidden'', example_review 2 20 ''visible'']\<rparr>"

section \<open>Properties\<close>

subsection \<open>Auxiliary facts\<close>

lemma window_ok:
  "0 \<le> s \<Longrightarrow> s \<le> 2 ^ 63 - 1 \<Longrightarrow> 0 \<le> t \<Longrightarrow> t \<le> 2 ^ 63 - 1 \<Longrightarrow>
   window s t xs = Inr (take (nat t) (drop (nat s) xs))"
  by (simp add: window_def in_int64_def)

lemma summary_ok:
  "mapToProfessorResponse (include_summary p) =
     Inr \<lparr>res_id = prof_id p, res_fullName = prof_fullName p,
          res_averageRating = prof_averageRating p, res_reviewCount = prof_reviewCount p,
          res_universities = map university_dto (prof_universities p),
          res_faculties = map faculty_dto (prof_faculties p)\<rparr>"
  by (simp add: mapToProfessorResponse_def include_summary_def)

lemma map_throwing_Inr:
  "(\<And>x. x \<in> set xs \<Longrightarrow> \<exists>y. f x = Inr y) \<Longrightarrow>
   \<exists>ys. map_throwing f xs = Inr ys \<and> list_all2 (\<lambda>x y. f x = Inr y) xs ys"
proof (induction xs)
  case Nil
  show ?case by simp
next
  case (Cons x xs)
  from Cons.prems obtain y where y: "f x = Inr y" by auto
  from Cons obtain ys where ys: "map_throwing f xs = Inr ys" "list_all2 (\<lambda>x y. f x = Inr y) xs ys"
    by auto
  show ?case using y ys by simp
qed

lemma map_throwing_summary:
  "\<exists>ds. map_throwing mapToProfessorResponse (map include_summary ps) = Inr ds \<and>
        list_all2 (\<lambda>p d. mapToProfessorResponse (include_summary p) = Inr d) ps ds"
proof -
  have "\<exists>ys. map_throwing mapToProfessorResponse (map include_summary ps) = Inr ys \<and>
          list_all2 (\<lambda>x y. mapToProfessorResponse x = Inr y) (map include_summary ps) ys"
    by (rule map_throwing_Inr) (auto simp: summary_ok)
  then show ?thesis by (simp add: list_all2_map1)
qed

text \<open>
  With a filter and a window that the store accepts, \<open>findAll\<close> returns: the page is
  the window of the ordered matching rows, each row projected, and the meta block is
  computed from the count under the same filter.
\<close>

lemma findAll_succeeds:
  assumes "where_in_range (findAll_where dto)"
    and "0 \<le> findAll_skip dto" and "findAll_skip dto \<le> 2 ^ 63 - 1"
    and "0 \<le> parsedLimit dto" and "parsedLimit dto \<le> 2 ^ 63 - 1"
  shows "\<exists>ds. findAll db dto =
           Inr \<lparr>data = ds,
                meta = \<lparr>meta_total = int (length (filter (Professor_matches (findAll_where dto)) db)),
                        meta_page = parsedPage dto,
                        meta_lastPage =
                          Math_ceil (js_div (int (length (filter (Professor_matches (findAll_where dto)) db)))
                            (parsedLimit dto)),
                        meta_limit = parsedLimit dto\<rparr>\<rparr> \<and>
         list_all2 (\<lambda>p d. mapToProfessorResponse (include_summary p) = Inr d)
           (take (nat (parsedLimit dto)) (drop (nat (findAll_skip dto))
              (orderBy_averageRating_desc (filter (Professor_matches (findAll_where dto)) db)))) ds"
proof -
  let ?rows = "take (nat (parsedLimit dto)) (drop (nat (findAll_skip dto))
              (orderBy_averageRating_desc (filter (Professor_matches (findAll_where dto)) db)))"
  have c: "professor_count (findAll_where dto) db =
             Inr (int (length (filter (Professor_matches (findAll_where dto)) db)))"
    using assms(1) by (simp add: professor_count_def)
  have fm: "professor_findMany (findAll_where dto) (findAll_skip dto) (parsedLimit dto) db =
              Inr (map include_summary ?rows)"
    using assms by (simp add: professor_findMany_def window_ok)
  obtain ds where ds: "map_throwing mapToProfessorResponse (map include_summary ?rows) = Inr ds"
      "list_all2 (\<lambda>p d. mapToProfessorResponse (include_summary p) = Inr d) ?rows ds"
    using map_throwing_summary by blast
  show ?thesis using c fm ds by (simp add: findAll_def Let_def)
qed

text \<open>
  Rounding to a double: exact below \<open>2^53\<close>, at least \<open>2^53\<close> from \<open>2^53\<close> on, and never
  negative on a natural number.
\<close>

lemma js_double_small: "\<bar>n\<bar> < 2 ^ 53 \<Longrightarrow> js_double n = n"
  by (simp add: js_double_def)

lemma js_double_large:
  assumes "2 ^ 53 \<le> n"
  shows "2 ^ 53 \<le> js_double n"
proof -
  have npos: "0 < n" using assms by (simp add: less_le_trans[of 0 "2 ^ 53"])
  have abs: "\<bar>n\<bar> = n" using npos by simp
  define e where "e = nat (bitlen n - 53)"
  define q where "q = n div 2 ^ e"
  have b: "2 ^ nat (bitlen n - 1) \<le> n" "n < 2 ^ nat (bitlen n)"
    using bitlen_bounds[OF npos] by simp_all
  have "(2::int) ^ 53 < 2 ^ nat (bitlen n)" using assms b(2) by linarith
  then have "53 < nat (bitlen n)" by (rule power_less_imp_less_exp[rotated]) simp
  then have bl: "54 \<le> bitlen n" by linarith
  have e1: "1 \<le> e" using bl by (simp add: e_def)
  have split: "nat (bitlen n - 1) = 52 + e" using bl by (simp add: e_def)
  have "(2::int) ^ 52 * 2 ^ e \<le> n" using b(1) by (simp add: split power_add)
  then have "((2::int) ^ 52 * 2 ^ e) div 2 ^ e \<le> n div 2 ^ e"
    by (rule zdiv_mono1) simp
  then have "(2::int) ^ 52 \<le> n div 2 ^ e" by simp
  then have q52: "(2::int) ^ 52 \<le> q" by (simp add: q_def)
  have p1: "(2::int) ^ 1 \<le> 2 ^ e" using e1 by (intro power_increasing) simp_all
  have "(2::int) ^ 53 = 2 ^ 52 * 2 ^ 1" by simp
  also have "\<dots> \<le> q * 2 ^ e"
    using q52 p1 by (intro mult_mono) simp_all
  finally have low: "(2::int) ^ 53 \<le> q * 2 ^ e" .
  have "(0::int) \<le> 2 ^ e" by simp
  then have "q * 2 ^ e \<le> (q + 1) * 2 ^ e" by (simp add: algebra_simps)
  then have low': "(2::int) ^ 53 \<le> (q + 1) * 2 ^ e" using low by linarith
  have "js_double n =
      (if 2 ^ e < 2 * (n mod 2 ^ e) \<or> (2 * (n mod 2 ^ e) = 2 ^ e \<and> odd q) then q + 1 else q) * 2 ^ e"
    using assms npos by (simp add: js_double_def abs Let_def e_def q_def)
  then show ?thesis using low low' by (simp split: if_splits)
qed

lemma js_double_nonneg: "0 \<le> n \<Longrightarrow> 0 \<le> js_double n"
proof (cases "n < 2 ^ 53")
  case True
  assume "0 \<le> n"
  then show ?thesis using True by (simp add: js_double_small)
next
  case False
  then have "(2::int) ^ 53 \<le> js_double n" by (intro js_double_large) simp
  then show ?thesis by simp
qed

lemma valid_dto_window:
  assumes "valid_dto dto"
  shows "1 \<le> parsedPage dto" and "1 \<le> parsedLimit dto" and "parsedLimit dto \<le> 100"
    and "0 \<le> findAll_skip dto"
proof -
  show p: "1 \<le> parsedPage dto" using assms
    by (auto simp: valid_dto_def at_least_def parsedPage_def split: option.splits)
  show l: "1 \<le> parsedLimit dto" using assms
    by (auto simp: valid_dto_def in_range_def parsedLimit_def split: option.splits)
  show "parsedLimit dto \<le> 100" using assms
    by (auto simp: valid_dto_def in_range_def parsedLimit_def split: option.splits)
  have "0 \<le> js_double (parsedPage dto - 1)" using p by (simp add: js_double_nonneg)
  then have "0 \<le> js_double (parsedPage dto - 1) * parsedLimit dto" using l by simp
  then show "0 \<le> findAll_skip dto" unfolding findAll_skip_def by (rule js_double_nonneg)
qed

lemma lastPage_ceiling:
  "l \<noteq> 0 \<Longrightarrow> Math_ceil (js_div t l) = Finite (of_int \<lceil>(of_int t :: rat) / of_int l\<rceil>)"
  by (simp add: js_div_def)

text \<open>The ceiling of \<open>t / l\<close> is the least number of pages of size \<open>l\<close> that hold \<open>t\<close> rows.\<close>

lemma ceiling_pages:
  fixes t l :: int
  assumes "0 < l"
  defines "n \<equiv> \<lceil>(of_int t :: rat) / of_int l\<rceil>"
  shows "t \<le> n * l" and "(n - 1) * l < t"
proof -
  have lpos: "(0::rat) < of_int l" using assms by simp
  have "(of_int t :: rat) / of_int l \<le> of_int n" unfolding n_def by (rule le_of_int_ceiling)
  then have "(of_int t :: rat) \<le> of_int n * of_int l" using lpos by (simp add: pos_divide_le_eq)
  then have "(of_int t :: rat) \<le> of_int (n * l)" by simp
  then show "t \<le> n * l" by (simp only: of_int_le_iff)
  have "of_int n - 1 < (of_int t :: rat) / of_int l" unfolding n_def by linarith
  then have "(of_int n - 1) * of_int l < (of_int t :: rat)" using lpos by (simp add: pos_less_divide_eq)
  then have "(of_int ((n - 1) * l) :: rat) < of_int t" by simp
  then show "(n - 1) * l < t" by (simp only: of_int_less_iff)
qed

lemma summary_ratings:
  "list_all2 (\<lambda>p d. mapToProfessorResponse (include_summary p) = Inr d) ps ds \<Longrightarrow>
   map res_averageRating ds = map prof_averageRating ps"
  by (induction ps ds rule: list_all2_induct) (auto simp: summary_ok)

lemma orderBy_desc_sorted:
  "sorted_wrt (\<lambda>a b. prof_averageRating b \<le> prof_averageRating a) (orderBy_averageRating_desc ps)"
proof -
  have "sorted (map (\<lambda>p. - prof_averageRating p) (sort_key (\<lambda>p. - prof_averageRating p) ps))"
    by (rule sorted_sort_key)
  then show ?thesis by (simp add: orderBy_averageRating_desc_def sorted_map)
qed

lemma find_by_id:
  "distinct (map prof_id db) \<Longrightarrow> p \<in> set db \<Longrightarrow> find (\<lambda>q. prof_id q = prof_id p) db = Some p"
  by (induction db) (auto simp: image_iff)

lemma find_None_id: "(find (\<lambda>q. prof_id q = i) db = None) = (\<forall>p\<in>set db. prof_id p \<noteq> i)"
  by (auto simp: find_None_iff)

lemma detail_ok:
  "mapToProfessorDetailResponse (include_detail p) =
     Inr \<lparr>res_id = prof_id p, res_fullName = prof_fullName p,
          res_averageRating = prof_averageRating p, res_reviewCount = prof_reviewCount p,
          res_universities = map university_dto (prof_universities p),
          res_faculties = map faculty_dto (prof_faculties p),
          res_courses = map course_dto (prof_courses p),
          res_tags = map tag_dto (prof_tags p),
          res_reviews = map review_dto (visible_reviews (prof_reviews p))\<rparr>"
  by (simp add: mapToProfessorDetailResponse_def include_detail_def or_empty_def)

lemma visible_reviews_sorted:
  "sorted_wrt (\<lambda>a b. createdAt b \<le> createdAt a) (visible_reviews rs)"
proof -
  have "sorted (map (\<lambda>r. - createdAt r)
          (sort_key (\<lambda>r. - createdAt r) (filter (\<lambda>r. visibilityStatus r = ''visible'') rs)))"
    by (rule sorted_sort_key)
  then show ?thesis by (simp add: visible_reviews_def sorted_map)
qed

lemmas where_defs =
  findAll_where_def where_relations_def where_reviews_def where_rating_def where_name_def
  universityFilter_def facultyFilter_def departmentFilter_def
  parsedUniversityId_def parsedFacultyId_def parsedMinRating_def parsedMaxRating_def
  parsedMinReviews_def truthy_number_def truthy_string_def

lemma list_all2_right:
  "list_all2 R ps ds \<Longrightarrow> d \<in> set ds \<Longrightarrow> \<exists>p\<in>set ps. R p d"
  by (induction ps ds rule: list_all2_induct) auto

text \<open>The rating bounds only touch the \<open>averageRating\<close> field of the filter.\<close>

lemma findAll_where_rating:
  "findAll_where dto =
     (findAll_where (dto\<lparr>minRating := None, maxRating := None\<rparr>))
       \<lparr>where_averageRating :=
          (if minRating dto \<noteq> None \<or> maxRating dto \<noteq> None
           then Some \<lparr>float_gte = minRating dto, float_lte = maxRating dto\<rparr> else None)\<rparr>"
  by (cases "minRating dto"; cases "maxRating dto")
     (simp_all add: where_defs Let_def split: option.splits)

lemma where_averageRating_unbounded:
  "where_averageRating (findAll_where (dto\<lparr>minRating := None, maxRating := None\<rparr>)) = None"
  by (simp add: where_defs Let_def split: option.splits)

lemma matches_rating:
  "Professor_matches (findAll_where dto) p =
     (Professor_matches (findAll_where (dto\<lparr>minRating := None, maxRating := None\<rparr>)) p \<and>
      (case minRating dto of None \<Rightarrow> True | Some lo \<Rightarrow> lo \<le> prof_averageRating p) \<and>
      (case maxRating dto of None \<Rightarrow> True | Some hi \<Rightarrow> prof_averageRating p \<le> hi))"
proof -
  let ?w = "findAll_where (dto\<lparr>minRating := None, maxRating := None\<rparr>)"
  have "Professor_matches (findAll_where dto) p =
        Professor_matches (?w\<lparr>where_averageRating :=
          (if minRating dto \<noteq> None \<or> maxRating dto \<noteq> None
           then Some \<lparr>float_gte = minRating dto, float_lte = maxRating dto\<rparr> else None)\<rparr>) p"
    by (subst findAll_where_rating) (rule refl)
  also have "\<dots> = (Professor_matches ?w p \<and>
      (case minRating dto of None \<Rightarrow> True | Some lo \<Rightarrow> lo \<le> prof_averageRating p) \<and>
      (case maxRating dto of None \<Rightarrow> True | Some hi \<Rightarrow> prof_averageRating p \<le> hi))"
    using where_averageRating_unbounded[of dto]
    by (auto simp: Professor_matches_def FloatFilter_matches_def split: option.splits)
  finally show ?thesis .
qed

lemma findAll_cong:
  assumes "findAll_where a = findAll_where b" and "page a = page b" and "limit a = limit b"
  shows "findAll db a = findAll db b"
proof -
  have pp: "parsedPage a = parsedPage b" and pl: "parsedLimit a = parsedLimit b"
    using assms by (simp_all add: parsedPage_def parsedLimit_def)
  show ?thesis unfolding findAll_def findAll_skip_def assms(1) pp pl by (rule refl)
qed

text \<open>The filter depends on the criteria only through the pieces the source builds.\<close>

lemma findAll_where_cong:
  assumes "where_name a = where_name b"
    and "minRating a = minRating b" and "maxRating a = maxRating b"
    and "minReviews a = minReviews b"
    and "universityFilter a = universityFilter b"
    and "facultyFilter a = facultyFilter b"
    and "departmentFilter a = departmentFilter b"
  shows "findAll_where a = findAll_where b"
  unfolding findAll_where_def where_relations_def where_reviews_def where_rating_def
    parsedMinRating_def parsedMaxRating_def parsedMinReviews_def assms
  by (rule refl)

lemma where_name_cong: "name a = name b \<Longrightarrow> where_name a = where_name b"
  by (simp add: where_name_def fun_eq_iff)

lemma universityFilter_cong:
  assumes "universityId a = universityId b" shows "universityFilter a = universityFilter b"
  unfolding universityFilter_def parsedUniversityId_def assms by (rule refl)

lemma facultyFilter_cong:
  assumes "facultyId a = facultyId b" shows "facultyFilter a = facultyFilter b"
  unfolding facultyFilter_def parsedFacultyId_def assms by (rule refl)

lemma departmentFilter_cong:
  assumes "department a = department b" shows "departmentFilter a = departmentFilter b"
  unfolding departmentFilter_def assms by (rule refl)

lemma universityFilter_falsy:
  "universityId dto = Some 0 \<or> universityId dto = None \<Longrightarrow> universityFilter dto = None"
  by (auto simp: universityFilter_def parsedUniversityId_def truthy_number_def)

lemma facultyFilter_falsy:
  "facultyId dto = Some 0 \<or> facultyId dto = None \<Longrightarrow> facultyFilter dto = None"
  by (auto simp: facultyFilter_def parsedFacultyId_def truthy_number_def)

lemma departmentFilter_falsy:
  "department dto = Some [] \<or> department dto = None \<Longrightarrow> departmentFilter dto = None"
  by (auto simp: departmentFilter_def truthy_string_def)

lemma where_name_falsy:
  "name dto = Some [] \<or> name dto = None \<Longrightarrow> where_name dto w = w"
  by (auto simp: where_name_def truthy_string_def)

lemma where_universityId_zero:
  "findAll_where (dto\<lparr>universityId := Some 0\<rparr>) = findAll_where (dto\<lparr>universityId := None\<rparr>)"
proof (rule findAll_where_cong)
  show "where_name (dto\<lparr>universityId := Some 0\<rparr>) = where_name (dto\<lparr>universityId := None\<rparr>)"
    by (rule where_name_cong) simp
  show "universityFilter (dto\<lparr>universityId := Some 0\<rparr>) = universityFilter (dto\<lparr>universityId := None\<rparr>)"
    by (simp add: universityFilter_falsy)
  show "facultyFilter (dto\<lparr>universityId := Some 0\<rparr>) = facultyFilter (dto\<lparr>universityId := None\<rparr>)"
    by (rule facultyFilter_cong) simp
  show "departmentFilter (dto\<lparr>universityId := Some 0\<rparr>) = departmentFilter (dto\<lparr>universityId := None\<rparr>)"
    by (rule departmentFilter_cong) simp
qed simp_all

lemma where_facultyId_zero:
  "findAll_where (dto\<lparr>facultyId := Some 0\<rparr>) = findAll_where (dto\<lparr>facultyId := None\<rparr>)"
proof (rule findAll_where_cong)
  show "where_name (dto\<lparr>facultyId := Some 0\<rparr>) = where_name (dto\<lparr>facultyId := None\<rparr>)"
    by (rule where_name_cong) simp
  show "universityFilter (dto\<lparr>facultyId := Some 0\<rparr>) = universityFilter (dto\<lparr>facultyId := None\<rparr>)"
    by (rule universityFilter_cong) simp
  show "facultyFilter (dto\<lparr>facultyId := Some 0\<rparr>) = facultyFilter (dto\<lparr>facultyId := None\<rparr>)"
    by (simp add: facultyFilter_falsy)
  show "departmentFilter (dto\<lparr>facultyId := Some 0\<rparr>) = departmentFilter (dto\<lparr>facultyId := None\<rparr>)"
    by (rule departmentFilter_cong) simp
qed simp_all

lemma where_name_empty:
  "findAll_where (dto\<lparr>name := Some ''''\<rparr>) = findAll_where (dto\<lparr>name := None\<rparr>)"
proof (rule findAll_where_cong)
  show "where_name (dto\<lparr>name := Some ''''\<rparr>) = where_name (dto\<lparr>name := None\<rparr>)"
    by (simp add: where_name_falsy fun_eq_iff)
  show "universityFilter (dto\<lparr>name := Some ''''\<rparr>) = universityFilter (dto\<lparr>name := None\<rparr>)"
    by (rule universityFilter_cong) simp
  show "facultyFilter (dto\<lparr>name := Some ''''\<rparr>) = facultyFilter (dto\<lparr>name := None\<rparr>)"
    by (rule facultyFilter_cong) simp
  show "departmentFilter (dto\<lparr>name := Some ''''\<rparr>) = departmentFilter (dto\<lparr>name := None\<rparr>)"
    by (rule departmentFilter_cong) simp
qed simp_all

lemma where_department_empty:
  "findAll_where (dto\<lparr>department := Some ''''\<rparr>) = findAll_where (dto\<lparr>department := None\<rparr>)"
proof (rule findAll_where_cong)
  show "where_name (dto\<lparr>department := Some ''''\<rparr>) = where_name (dto\<lparr>department := None\<rparr>)"
    by (rule where_name_cong) simp
  show "universityFilter (dto\<lparr>department := Some ''''\<rparr>) = universityFilter (dto\<lparr>department := None\<rparr>)"
    by (rule universityFilter_cong) simp
  show "facultyFilter (dto\<lparr>department := Some ''''\<rparr>) = facultyFilter (dto\<lparr>department := None\<rparr>)"
    by (rule facultyFilter_cong) simp
  show "departmentFilter (dto\<lparr>department := Some ''''\<rparr>) = departmentFilter (dto\<lparr>department := None\<rparr>)"
    by (simp add: departmentFilter_falsy)
qed simp_all

text \<open>Which relation filters end up in the filter object.\<close>

lemma where_universities_eq:
  "where_universities (findAll_where dto) =
     (case departmentFilter dto of None \<Rightarrow> universityFilter dto | Some f \<Rightarrow> Some f)"
  by (simp add: findAll_where_def where_relations_def where_reviews_def where_rating_def
      where_name_def Let_def split: option.splits)

lemma where_faculties_eq: "where_faculties (findAll_where dto) = facultyFilter dto"
  by (simp add: findAll_where_def where_relations_def where_reviews_def where_rating_def
      where_name_def Let_def split: option.splits)

lemma where_fullName_eq:
  "where_fullName (findAll_where dto) =
     where_fullName (where_name dto
       \<lparr>where_fullName = None, where_averageRating = None, where_reviewCount = None,
        where_universities = None, where_faculties = None\<rparr>)"
  by (simp add: findAll_where_def where_relations_def where_reviews_def where_rating_def
      Let_def split: option.splits)

lemma where_falsy_unconstrained:
  "where_universities (findAll_where (dto\<lparr>universityId := Some 0, department := Some ''''\<rparr>)) = None"
  "where_universities (findAll_where (dto\<lparr>universityId := Some 0, department := None\<rparr>)) = None"
  "where_faculties (findAll_where (dto\<lparr>facultyId := Some 0\<rparr>)) = None"
  "where_fullName (findAll_where (dto\<lparr>name := Some ''''\<rparr>)) = None"
  by (simp_all add: where_universities_eq where_faculties_eq where_fullName_eq
      universityFilter_falsy facultyFilter_falsy departmentFilter_falsy where_name_falsy)

lemma where_rating_cong:
  assumes "minRating a = minRating b" and "maxRating a = maxRating b"
  shows "where_rating a = where_rating b"
  unfolding where_rating_def parsedMinRating_def parsedMaxRating_def assms by (rule refl)

lemma where_reviews_cong:
  assumes "minReviews a = minReviews b" shows "where_reviews a = where_reviews b"
  unfolding where_reviews_def parsedMinReviews_def assms by (rule refl)

text \<open>With a department supplied, the filter is the one built without the university id.\<close>

lemma department_overwrites_universityId:
  assumes "truthy_string (department dto)"
  shows "findAll_where dto = findAll_where (dto\<lparr>universityId := None\<rparr>)"
proof -
  from assms obtain d where d: "department dto = Some d" "d \<noteq> []"
    by (auto simp: truthy_string_def split: option.splits)
  have f: "facultyFilter (dto\<lparr>universityId := None\<rparr>) = facultyFilter dto"
    by (rule facultyFilter_cong) simp
  have dp: "departmentFilter (dto\<lparr>universityId := None\<rparr>) = departmentFilter dto"
    by (rule departmentFilter_cong) simp
  obtain g where g: "departmentFilter dto = Some g"
    using d by (simp add: departmentFilter_def truthy_string_def)
  have r: "where_relations dto = where_relations (dto\<lparr>universityId := None\<rparr>)"
    by (rule ext) (simp add: where_relations_def Let_def f dp g split: option.splits)
  have n: "where_name dto = where_name (dto\<lparr>universityId := None\<rparr>)"
    by (rule where_name_cong) simp
  have ra: "where_rating dto = where_rating (dto\<lparr>universityId := None\<rparr>)"
    by (rule where_rating_cong) simp_all
  have rv: "where_reviews dto = where_reviews (dto\<lparr>universityId := None\<rparr>)"
    by (rule where_reviews_cong) simp
  show ?thesis unfolding findAll_where_def r n ra rv by (rule refl)
qed

text \<open>The window is no part of the filter.\<close>

lemma findAll_where_window:
  "findAll_where (dto\<lparr>page := p, limit := l\<rparr>) = findAll_where dto"
proof (rule findAll_where_cong)
  show "where_name (dto\<lparr>page := p, limit := l\<rparr>) = where_name dto"
    by (rule where_name_cong) simp
  show "universityFilter (dto\<lparr>page := p, limit := l\<rparr>) = universityFilter dto"
    by (rule universityFilter_cong) simp
  show "facultyFilter (dto\<lparr>page := p, limit := l\<rparr>) = facultyFilter dto"
    by (rule facultyFilter_cong) simp
  show "departmentFilter (dto\<lparr>page := p, limit := l\<rparr>) = departmentFilter dto"
    by (rule departmentFilter_cong) simp
qed simp_all

text \<open>Ids within the column give a filter that the store accepts.\<close>

lemma where_reviewCount_eq:
  "where_reviewCount (findAll_where dto) =
     (case minReviews dto of None \<Rightarrow> None | Some b \<Rightarrow> Some \<lparr>int_gte = Some b\<rparr>)"
  by (simp add: findAll_where_def where_relations_def where_reviews_def where_rating_def
      where_name_def parsedMinReviews_def Let_def split: option.splits)

lemma ids_within_column_where:
  assumes "ids_within_column dto"
  shows "where_in_range (findAll_where dto)"
proof -
  have r: "opt_in_int32 (case where_reviewCount (findAll_where dto) of
             None \<Rightarrow> None | Some f \<Rightarrow> int_gte f)"
    using assms
    by (simp add: where_reviewCount_eq ids_within_column_def opt_in_int32_def split: option.splits)
  have u: "opt_in_int32 (case where_universities (findAll_where dto) of
             None \<Rightarrow> None | Some (RelSome w) \<Rightarrow> wh_universityId w)"
    using assms
    by (auto simp: where_universities_eq departmentFilter_def universityFilter_def
        parsedUniversityId_def ids_within_column_def opt_in_int32_def
        split: option.splits if_splits)
  have f: "opt_in_int32 (case where_faculties (findAll_where dto) of
             None \<Rightarrow> None | Some (RelSome w) \<Rightarrow> wh_facultyId w)"
    using assms
    by (auto simp: where_faculties_eq facultyFilter_def parsedFacultyId_def
        ids_within_column_def opt_in_int32_def split: option.splits if_splits)
  show ?thesis using r u f by (simp add: where_in_range_def)
qed

text \<open>A validated search within the store's ranges returns.\<close>

lemma findAll_in_range:
  assumes "valid_dto dto" and "within_store_ranges dto"
  shows "\<exists>ds. findAll db dto =
           Inr \<lparr>data = ds,
                meta = \<lparr>meta_total = int (length (filter (Professor_matches (findAll_where dto)) db)),
                        meta_page = parsedPage dto,
                        meta_lastPage =
                          Math_ceil (js_div (int (length (filter (Professor_matches (findAll_where dto)) db)))
                            (parsedLimit dto)),
                        meta_limit = parsedLimit dto\<rparr>\<rparr> \<and>
         list_all2 (\<lambda>p d. mapToProfessorResponse (include_summary p) = Inr d)
           (take (nat (parsedLimit dto)) (drop (nat (findAll_skip dto))
              (orderBy_averageRating_desc (filter (Professor_matches (findAll_where dto)) db)))) ds"
proof (rule findAll_succeeds)
  show "where_in_range (findAll_where dto)"
    using assms(2) by (simp add: within_store_ranges_def ids_within_column_where)
  show "0 \<le> findAll_skip dto" using valid_dto_window(4)[OF assms(1)] .
  show "findAll_skip dto \<le> 2 ^ 63 - 1" using assms(2) by (simp add: within_store_ranges_def)
  show "0 \<le> parsedLimit dto" using valid_dto_window(2)[OF assms(1)] by simp
  show "parsedLimit dto \<le> 2 ^ 63 - 1" using valid_dto_window(3)[OF assms(1)] by simp
qed

text \<open>Rounding to a double does not fall below a number under \<open>2^53\<close>.\<close>

lemma js_double_ge:
  assumes "0 \<le> t" and "t < 2 ^ 53" and "t \<le> x"
  shows "t \<le> js_double x"
proof (cases "x < 2 ^ 53")
  case True
  then have "\<bar>x\<bar> < 2 ^ 53" using assms by simp
  then show ?thesis using assms(3) by (simp add: js_double_small)
next
  case False
  then have "(2::int) ^ 53 \<le> js_double x" by (intro js_double_large) simp
  then show ?thesis using assms(2) by linarith
qed

text \<open>What the two queries hand to the service.\<close>

lemma findMany_rows:
  assumes "professor_findMany wh skip tk db = Inr recs" and "rec \<in> set recs"
  shows "\<exists>p. rec = include_summary p"
proof -
  from assms(1) obtain ps where "recs = map include_summary ps"
    by (auto simp: professor_findMany_def split: if_splits sum.splits)
  then show ?thesis using assms(2) by auto
qed

lemma findUnique_row:
  assumes "professor_findUnique i db = Inr (Some rec)"
  shows "\<exists>p. rec = include_detail p"
  using assms by (auto simp: professor_findUnique_def split: option.splits if_splits)

subsection \<open>University id together with department\<close>

text \<open>
  C1. The example of the spec: the professor linked to university 1 (Math) and to
  university 2 (Physics) has no single joined row with id 1 whose department contains
  \<open>Physics\<close>. Searched with \<open>universityId = 1\<close> and \<open>department = 'Physics'\<close>, the filter
  that \<open>findAll\<close> builds holds the department condition only, and the professor is
  returned.
\<close>

theorem findAll_universityId_overwritten:
  "\<not> list_ex (\<lambda>rel. rel_universityId rel = 1 \<and>
                  StringFilter_matches \<lparr>contains = ''Physics'', mode = Insensitive\<rparr>
                    (uni_department (rel_university rel)))
        (prof_universities example_professor) \<and>
   where_universities
     (findAll_where (empty_criteria\<lparr>universityId := Some 1, department := Some ''Physics''\<rparr>)) =
     Some (RelSome \<lparr>wh_universityId = None,
                    wh_university =
                      Some \<lparr>wh_department = Some \<lparr>contains = ''Physics'', mode = Insensitive\<rparr>\<rparr>\<rparr>) \<and>
   findAll [example_professor]
     (empty_criteria\<lparr>universityId := Some 1, department := Some ''Physics''\<rparr>) =
     Inr \<lparr>data =
            [\<lparr>res_id = 7, res_fullName = ''P'', res_averageRating = 4, res_reviewCount = 2,
              res_universities =
                [\<lparr>ud_id = 1, ud_name = ''A'', ud_acronym = ''UA''\<rparr>,
                 \<lparr>ud_id = 2, ud_name = ''B'', ud_acronym = ''UB''\<rparr>],
              res_faculties = []\<rparr>],
          meta = \<lparr>meta_total = 1, meta_page = 1, meta_lastPage = Finite 1, meta_limit = 20\<rparr>\<rparr>"
  by code_simp

subsection \<open>The count and the page use one filter\<close>

text \<open>
  C2. For every validated search within the store's ranges (ids and \<open>minReviews\<close>
  within the \<^verbatim>\<open>Int\<close> column, offset within 64 bits), \<open>findAll\<close> returns; \<open>meta.total\<close> is
  the number of rows of the store that satisfy the filter built from the criteria; that
  filter does not depend on the page or the limit; \<open>data\<close> is the projection of the
  window of the ordered rows satisfying that same filter; and the length of \<open>data\<close> is
  what the window leaves of \<open>total\<close> rows.
\<close>

theorem findAll_total_same_predicate:
  assumes "valid_dto dto" and "within_store_ranges dto"
  shows "\<exists>r. findAll db dto = Inr r \<and>
           meta_total (meta r) = int (length (filter (Professor_matches (findAll_where dto)) db)) \<and>
           (\<forall>p l. findAll_where (dto\<lparr>page := p, limit := l\<rparr>) = findAll_where dto) \<and>
           list_all2 (\<lambda>p d. mapToProfessorResponse (include_summary p) = Inr d)
             (take (nat (parsedLimit dto)) (drop (nat (findAll_skip dto))
                (orderBy_averageRating_desc (filter (Professor_matches (findAll_where dto)) db))))
             (data r) \<and>
           int (length (data r)) =
             min (parsedLimit dto) (max 0 (meta_total (meta r) - findAll_skip dto))"
proof -
  let ?m = "filter (Professor_matches (findAll_where dto)) db"
  let ?rows = "take (nat (parsedLimit dto)) (drop (nat (findAll_skip dto)) (orderBy_averageRating_desc ?m))"
  from valid_dto_window[OF assms(1)] have s: "0 \<le> findAll_skip dto" and l: "0 \<le> parsedLimit dto"
    by simp_all
  from findAll_in_range[OF assms, of db] obtain ds where
    r: "findAll db dto =
           Inr \<lparr>data = ds,
                meta = \<lparr>meta_total = int (length ?m),
                        meta_page = parsedPage dto,
                        meta_lastPage = Math_ceil (js_div (int (length ?m)) (parsedLimit dto)),
                        meta_limit = parsedLimit dto\<rparr>\<rparr>"
    and d: "list_all2 (\<lambda>p d. mapToProfessorResponse (include_summary p) = Inr d) ?rows ds"
    by blast
  have "length ds = length ?rows" using d by (metis list_all2_lengthD)
  also have "\<dots> = min (nat (parsedLimit dto)) (length ?m - nat (findAll_skip dto))"
    by (simp add: orderBy_averageRating_desc_def)
  finally have len: "int (length ds) = min (parsedLimit dto) (max 0 (int (length ?m) - findAll_skip dto))"
    using s l by linarith
  show ?thesis using r d len by (simp add: findAll_where_window)
qed

theorem findAll_total_same_predicate_witness:
  "valid_dto (empty_criteria\<lparr>minRating := Some 3, page := Some 2, limit := Some 2\<rparr>) \<and>
   within_store_ranges (empty_criteria\<lparr>minRating := Some 3, page := Some 2, limit := Some 2\<rparr>) \<and>
   (\<exists>r. findAll example_ratings
           (empty_criteria\<lparr>minRating := Some 3, page := Some 2, limit := Some 2\<rparr>) = Inr r \<and>
        meta_total (meta r) = 3 \<and> int (length (data r)) = 1)"
proof -
  let ?dto = "empty_criteria\<lparr>minRating := Some 3, page := Some 2, limit := Some 2\<rparr>"
  have v: "valid_dto ?dto" by code_simp
  have w: "within_store_ranges ?dto" by code_simp
  have c: "int (length (filter (Professor_matches (findAll_where ?dto)) example_ratings)) = 3"
    by code_simp
  have s: "findAll_skip ?dto = 2" and l: "parsedLimit ?dto = 2" by code_simp+
  from findAll_total_same_predicate[OF v w, of example_ratings] c s l
  show ?thesis using v w by auto
qed

subsection \<open>Offset and last page\<close>

text \<open>
  C3, as amended. For a search with \<open>page = p \<ge> 1\<close> and \<open>limit = l\<close> in \<open>[1, 100]\<close> such
  that \<open>(p - 1) * l < 2^53\<close>, where the arithmetic of doubles is exact, and with its ids
  within the \<^verbatim>\<open>Int\<close> column: the offset is \<open>(p - 1) * l\<close>, it is the \<^verbatim>\<open>skip\<close> that the fetch
  producing \<open>data\<close> is called with, and \<open>meta.lastPage\<close> is \<^verbatim>\<open>Math.ceil\<close> of the count over
  \<open>l\<close>. For every count \<open>0 \<le> t < 2^53\<close> that value is the finite number \<open>n = \<lceil>t / l\<rceil>\<close>,
  the only integer with \<open>(n - 1) * l < t \<le> n * l\<close>; it is 0 for \<open>t = 0\<close>.
\<close>

theorem findAll_offset_lastPage:
  assumes "page dto = Some p" and "limit dto = Some l" and "1 \<le> p" and "1 \<le> l" and "l \<le> 100"
    and "(p - 1) * l < 2 ^ 53" and "ids_within_column dto"
  shows "findAll_skip dto = (p - 1) * l \<and>
         (\<exists>r ps. findAll db dto = Inr r \<and>
            professor_findMany (findAll_where dto) ((p - 1) * l) l db = Inr ps \<and>
            map_throwing mapToProfessorResponse ps = Inr (data r) \<and>
            meta_total (meta r) = int (length (filter (Professor_matches (findAll_where dto)) db)) \<and>
            meta_lastPage (meta r) = Math_ceil (js_div (meta_total (meta r)) l)) \<and>
         (\<forall>t. 0 \<le> t \<and> t < 2 ^ 53 \<longrightarrow>
            (\<exists>n. Math_ceil (js_div t l) = Finite (of_int n) \<and>
                 n = \<lceil>(of_int t :: rat) / of_int l\<rceil> \<and> (n - 1) * l < t \<and> t \<le> n * l)) \<and>
         Math_ceil (js_div 0 l) = Finite 0"
proof -
  have pp: "parsedPage dto = p" and pl: "parsedLimit dto = l"
    using assms by (simp_all add: parsedPage_def parsedLimit_def)
  have p0: "0 \<le> p - 1" using assms by simp
  have "(p - 1) * 1 \<le> (p - 1) * l" using p0 assms(4) by (intro mult_left_mono) simp_all
  then have "p - 1 \<le> (p - 1) * l" by simp
  then have p53: "p - 1 < 2 ^ 53" using assms(6) by (rule le_less_trans)
  have s0: "0 \<le> (p - 1) * l" using assms by simp
  have d1: "js_double (p - 1) = p - 1" using p0 p53 by (intro js_double_small) simp
  have d2: "js_double ((p - 1) * l) = (p - 1) * l" using s0 assms(6) by (intro js_double_small) simp
  have skip: "findAll_skip dto = (p - 1) * l" by (simp add: findAll_skip_def pp pl d1 d2)
  have wr: "where_in_range (findAll_where dto)" using assms(7) by (rule ids_within_column_where)
  have s63: "(p - 1) * l \<le> 2 ^ 63 - 1" using assms(6) by simp
  have c: "professor_count (findAll_where dto) db =
             Inr (int (length (filter (Professor_matches (findAll_where dto)) db)))"
    using wr by (simp add: professor_count_def)
  obtain rows where fm: "professor_findMany (findAll_where dto) ((p - 1) * l) l db = Inr (map include_summary rows)"
    using s0 s63 assms wr by (simp add: professor_findMany_def window_ok)
  obtain ds where ds: "map_throwing mapToProfessorResponse (map include_summary rows) = Inr ds"
    using map_throwing_summary by blast
  have r: "findAll db dto =
     Inr \<lparr>data = ds,
          meta = \<lparr>meta_total = int (length (filter (Professor_matches (findAll_where dto)) db)),
                  meta_page = p,
                  meta_lastPage =
                    Math_ceil (js_div (int (length (filter (Professor_matches (findAll_where dto)) db))) l),
                  meta_limit = l\<rparr>\<rparr>"
    using c fm ds by (simp add: findAll_def Let_def skip pp pl)
  have part2: "\<exists>r ps. findAll db dto = Inr r \<and>
            professor_findMany (findAll_where dto) ((p - 1) * l) l db = Inr ps \<and>
            map_throwing mapToProfessorResponse ps = Inr (data r) \<and>
            meta_total (meta r) = int (length (filter (Professor_matches (findAll_where dto)) db)) \<and>
            meta_lastPage (meta r) = Math_ceil (js_div (meta_total (meta r)) l)"
    using r fm ds by simp
  have l0: "l \<noteq> 0" and lpos: "0 < l" using assms by simp_all
  have part3: "\<exists>n. Math_ceil (js_div t l) = Finite (of_int n) \<and>
                n = \<lceil>(of_int t :: rat) / of_int l\<rceil> \<and> (n - 1) * l < t \<and> t \<le> n * l" for t
    using lastPage_ceiling[OF l0, of t] ceiling_pages[OF lpos, of t] by simp
  have part4: "Math_ceil (js_div 0 l) = Finite 0"
    using lastPage_ceiling[OF l0, of 0] by simp
  show ?thesis using skip part2 part3 part4 by blast
qed

theorem findAll_offset_lastPage_witness:
  "ids_within_column (empty_criteria\<lparr>page := Some 2, limit := Some 3\<rparr>) \<and>
   findAll_skip (empty_criteria\<lparr>page := Some 2, limit := Some 3\<rparr>) = 3 \<and>
   (\<exists>r. findAll example_ratings (empty_criteria\<lparr>page := Some 2, limit := Some 3\<rparr>) = Inr r \<and>
        meta_total (meta r) = 4 \<and> meta_lastPage (meta r) = Finite 2 \<and> length (data r) = 1)"
proof -
  let ?dto = "empty_criteria\<lparr>page := Some 2, limit := Some 3\<rparr>"
  have p: "page ?dto = Some 2" and l: "limit ?dto = Some 3" by simp_all
  have i: "ids_within_column ?dto" by code_simp
  have b: "((2::int) - 1) * 3 < 2 ^ 53" by simp
  have c: "int (length (filter (Professor_matches (findAll_where ?dto)) example_ratings)) = 4"
    by code_simp
  have m: "Math_ceil (js_div 4 3) = Finite 2" by code_simp
  have f: "professor_findMany (findAll_where ?dto) 3 3 example_ratings = Inr [include_summary (professor_rated 1 2)]"
    by code_simp
  have mt: "map_throwing mapToProfessorResponse [include_summary (professor_rated 1 2)] = Inr ds \<Longrightarrow> length ds = 1" for ds
    by (auto simp: summary_ok)
  from findAll_offset_lastPage[OF p l _ _ _ b i, of example_ratings] c m f mt
  show ?thesis using i by auto
qed

text \<open>
  C3 as stated fails: for \<open>page = 2^53 + 2\<close> and \<open>limit = 1\<close> the subtraction
  \<^verbatim>\<open>parsedPage - 1\<close> rounds to \<open>2^53\<close>, so the offset of the fetch is \<open>2^53\<close> and not
  \<open>(page - 1) * limit = 2^53 + 1\<close>; \<open>findAll\<close> returns there.
\<close>

theorem findAll_offset_counterexample:
  "findAll_skip (empty_criteria\<lparr>page := Some 9007199254740994, limit := Some 1\<rparr>) =
     9007199254740992 \<and>
   (9007199254740994 - 1) * 1 = (9007199254740993 :: int) \<and>
   findAll example_ratings (empty_criteria\<lparr>page := Some 9007199254740994, limit := Some 1\<rparr>) =
     Inr \<lparr>data = [],
          meta = \<lparr>meta_total = 4, meta_page = 9007199254740994, meta_lastPage = Finite 4,
                  meta_limit = 1\<rparr>\<rparr>"
proof -
  let ?dto = "empty_criteria\<lparr>page := Some 9007199254740994, limit := Some 1\<rparr>"
  let ?m = "filter (Professor_matches (findAll_where ?dto)) example_ratings"
  have sk: "findAll_skip ?dto = 9007199254740992" by code_simp
  have pl: "parsedLimit ?dto = 1" and pp: "parsedPage ?dto = 9007199254740994" by code_simp+
  have wr: "where_in_range (findAll_where ?dto)" by code_simp
  have len: "length ?m = 4" by code_simp
  have lp: "Math_ceil (js_div 4 1) = Finite 4" by code_simp
  have rows: "take (nat (parsedLimit ?dto)) (drop (nat (findAll_skip ?dto))
                (orderBy_averageRating_desc ?m)) = []"
    by (simp add: sk orderBy_averageRating_desc_def len)
  from findAll_succeeds[of ?dto example_ratings] obtain ds where
    r: "findAll example_ratings ?dto =
           Inr \<lparr>data = ds,
                meta = \<lparr>meta_total = int (length ?m), meta_page = parsedPage ?dto,
                        meta_lastPage = Math_ceil (js_div (int (length ?m)) (parsedLimit ?dto)),
                        meta_limit = parsedLimit ?dto\<rparr>\<rparr>"
    and d: "list_all2 (\<lambda>p d. mapToProfessorResponse (include_summary p) = Inr d)
              (take (nat (parsedLimit ?dto)) (drop (nat (findAll_skip ?dto))
                (orderBy_averageRating_desc ?m))) ds"
    using wr by (auto simp: sk pl)
  have "ds = []" using d unfolding rows by simp
  then have "findAll example_ratings ?dto =
     Inr \<lparr>data = [],
          meta = \<lparr>meta_total = 4, meta_page = 9007199254740994, meta_lastPage = Finite 4,
                  meta_limit = 1\<rparr>\<rparr>"
    using r by (simp add: len pl pp lp)
  then show ?thesis using sk by simp
qed

subsection \<open>Visible reviews of the detail lookup\<close>

text \<open>
  C4. In a store with unique professor ids, \<open>findOne\<close> of the id of a stored professor
  returns a detail DTO whose \<open>reviews\<close> are, as a multiset, the projections of exactly
  that professor's reviews with \<open>visibilityStatus = 'visible'\<close>, and they are ordered
  by \<open>createdAt\<close> descending.
\<close>

theorem findOne_visible_reviews:
  assumes "distinct (map prof_id db)" and "p \<in> set db"
  shows "\<exists>d. findOne db (prof_id p) = Inr d \<and>
           mset (res_reviews d) =
             mset (map review_dto (filter (\<lambda>r. visibilityStatus r = ''visible'') (prof_reviews p))) \<and>
           sorted_wrt (\<lambda>a b. rd_createdAt b \<le> rd_createdAt a) (res_reviews d)"
proof -
  have fu: "professor_findUnique (prof_id p) db = Inr (Some (include_detail p))"
    using find_by_id[OF assms] by (simp add: professor_findUnique_def)
  have one: "findOne db (prof_id p) = mapToProfessorDetailResponse (include_detail p)"
    by (simp add: findOne_def fu)
  have ms: "mset (map review_dto (visible_reviews (prof_reviews p))) =
            mset (map review_dto (filter (\<lambda>r. visibilityStatus r = ''visible'') (prof_reviews p)))"
    by (simp add: visible_reviews_def)
  have "sorted_wrt (\<lambda>a b. rd_createdAt (review_dto b) \<le> rd_createdAt (review_dto a))
          (visible_reviews (prof_reviews p))"
    using visible_reviews_sorted[of "prof_reviews p"] by (simp add: review_dto_def)
  then have so: "sorted_wrt (\<lambda>a b. rd_createdAt b \<le> rd_createdAt a)
          (map review_dto (visible_reviews (prof_reviews p)))"
    by (simp add: sorted_wrt_map)
  show ?thesis using one ms so by (simp add: detail_ok)
qed

theorem findOne_visible_reviews_witness:
  "distinct (map prof_id [professor_rated 1 2, example_professor]) \<and>
   example_professor \<in> set [professor_rated 1 2, example_professor] \<and>
   (\<exists>d. findOne [professor_rated 1 2, example_professor] 7 = Inr d \<and>
        mset (res_reviews d) = {#review_dto (example_review 2 20 ''visible'')#})"
proof -
  have a: "distinct (map prof_id [professor_rated 1 2, example_professor])"
    by (simp add: professor_rated_def example_professor_def)
  have b: "example_professor \<in> set [professor_rated 1 2, example_professor]" by simp
  have i: "prof_id example_professor = 7" by (simp add: example_professor_def)
  have f: "filter (\<lambda>r. visibilityStatus r = ''visible'') (prof_reviews example_professor) =
             [example_review 2 20 ''visible'']"
    by (simp add: example_professor_def example_review_def)
  from findOne_visible_reviews[OF a b] show ?thesis using a b by (auto simp: i f)
qed

subsection \<open>Detail lookup of an unknown id\<close>

text \<open>
  C5, as amended. For every id within the range of the \<^verbatim>\<open>Int\<close> column, \<open>findOne\<close> raises
  \<open>NotFoundException\<close> exactly when no professor of the store has the id, returns a
  detail DTO exactly when one has, and raises nothing else.
\<close>

theorem findOne_NotFound_iff:
  assumes "in_int32 i"
  shows "((findOne db i = Inl (NotFoundException i)) = (\<forall>p\<in>set db. prof_id p \<noteq> i)) \<and>
   ((\<exists>d. findOne db i = Inr d) = (\<exists>p\<in>set db. prof_id p = i)) \<and>
   (\<forall>e. findOne db i = Inl e \<longrightarrow> e = NotFoundException i)"
proof (cases "find (\<lambda>q. prof_id q = i) db")
  case None
  then have r: "findOne db i = Inl (NotFoundException i)"
    using assms by (simp add: findOne_def professor_findUnique_def)
  have n: "\<forall>p\<in>set db. prof_id p \<noteq> i" using None by (simp only: find_None_id)
  then have n': "\<not> (\<exists>p\<in>set db. prof_id p = i)" by blast
  show ?thesis unfolding r using n n' by simp
next
  case (Some p)
  then have "findOne db i = mapToProfessorDetailResponse (include_detail p)"
    by (simp add: findOne_def professor_findUnique_def)
  then obtain d where r: "findOne db i = Inr d" by (simp add: detail_ok)
  have "p \<in> set db \<and> prof_id p = i" using Some by (auto simp: find_Some_iff)
  then have e: "\<exists>p\<in>set db. prof_id p = i" by blast
  then have e': "\<not> (\<forall>p\<in>set db. prof_id p \<noteq> i)" by blast
  show ?thesis unfolding r using e e' by simp
qed

theorem findOne_NotFound_iff_witness:
  "in_int32 8 \<and> in_int32 7 \<and>
   findOne [example_professor] 8 = Inl (NotFoundException 8) \<and>
   (\<exists>d. findOne [example_professor] 7 = Inr d)"
proof -
  have r8: "in_int32 8" and r7: "in_int32 7" by (simp_all add: in_int32_def)
  have i: "prof_id example_professor = 7" by (simp add: example_professor_def)
  have a: "\<forall>p\<in>set [example_professor]. prof_id p \<noteq> 8" by (simp add: i)
  have b: "\<exists>p\<in>set [example_professor]. prof_id p = 7" by (simp add: i)
  from findOne_NotFound_iff[OF r8, of "[example_professor]"] a
  have 1: "findOne [example_professor] 8 = Inl (NotFoundException 8)" by blast
  from findOne_NotFound_iff[OF r7, of "[example_professor]"] b
  have 2: "\<exists>d. findOne [example_professor] 7 = Inr d" by blast
  show ?thesis using r8 r7 1 2 by blast
qed

text \<open>
  C5 as stated fails: the id \<open>2^31\<close> matches no professor, and \<open>findOne\<close> raises the
  error of the store client for a value outside the column, not \<open>NotFoundException\<close>.
\<close>

theorem findOne_out_of_range_counterexample:
  "\<not> list_ex (\<lambda>p. prof_id p = 2147483648) [example_professor] \<and>
   findOne [example_professor] 2147483648 = Inl PrismaClientError \<and>
   findOne [example_professor] 2147483648 \<noteq> Inl (NotFoundException 2147483648)"
  by code_simp

subsection \<open>Rating bounds\<close>

text \<open>
  C6. A professor satisfies the filter of a search exactly when it satisfies the
  filter of the same search without rating bounds and its \<open>averageRating\<close> is at least
  \<open>minRating\<close> (when supplied) and at most \<open>maxRating\<close> (when supplied), each bound on
  its own. For a validated search within the store's ranges, \<open>findAll\<close> returns,
  \<open>total\<close> counts those professors and every entry of \<open>data\<close> has its rating within the
  supplied bounds.
\<close>

theorem findAll_rating_bounds:
  assumes "valid_dto dto" and "within_store_ranges dto"
  shows "(\<forall>p. Professor_matches (findAll_where dto) p =
            (Professor_matches (findAll_where (dto\<lparr>minRating := None, maxRating := None\<rparr>)) p \<and>
             (case minRating dto of None \<Rightarrow> True | Some lo \<Rightarrow> lo \<le> prof_averageRating p) \<and>
             (case maxRating dto of None \<Rightarrow> True | Some hi \<Rightarrow> prof_averageRating p \<le> hi))) \<and>
         (\<exists>r. findAll db dto = Inr r \<and>
            meta_total (meta r) =
              int (length (filter (Professor_matches (findAll_where dto)) db)) \<and>
            (\<forall>d\<in>set (data r).
               (case minRating dto of None \<Rightarrow> True | Some lo \<Rightarrow> lo \<le> res_averageRating d) \<and>
               (case maxRating dto of None \<Rightarrow> True | Some hi \<Rightarrow> res_averageRating d \<le> hi)))"
proof -
  let ?m = "filter (Professor_matches (findAll_where dto)) db"
  let ?rows = "take (nat (parsedLimit dto)) (drop (nat (findAll_skip dto)) (orderBy_averageRating_desc ?m))"
  from findAll_in_range[OF assms, of db] obtain ds where
    r: "findAll db dto =
           Inr \<lparr>data = ds,
                meta = \<lparr>meta_total = int (length ?m),
                        meta_page = parsedPage dto,
                        meta_lastPage = Math_ceil (js_div (int (length ?m)) (parsedLimit dto)),
                        meta_limit = parsedLimit dto\<rparr>\<rparr>"
    and d: "list_all2 (\<lambda>p d. mapToProfessorResponse (include_summary p) = Inr d) ?rows ds"
    by blast
  have rows: "set ?rows \<subseteq> set ?m"
  proof -
    have "set ?rows \<subseteq> set (orderBy_averageRating_desc ?m)"
      by (meson set_take_subset set_drop_subset subset_trans)
    then show ?thesis by (simp add: orderBy_averageRating_desc_def)
  qed
  have bounds: "(case minRating dto of None \<Rightarrow> True | Some lo \<Rightarrow> lo \<le> res_averageRating x) \<and>
                (case maxRating dto of None \<Rightarrow> True | Some hi \<Rightarrow> res_averageRating x \<le> hi)"
    if "x \<in> set ds" for x
  proof -
    from list_all2_right[OF d that] obtain p where
      p: "p \<in> set ?rows" and px: "mapToProfessorResponse (include_summary p) = Inr x" by blast
    have rx: "res_averageRating x = prof_averageRating p" using px by (auto simp: summary_ok)
    have "Professor_matches (findAll_where dto) p" using p rows by auto
    then show ?thesis unfolding rx using matches_rating[of dto p] by blast
  qed
  have "\<exists>r. findAll db dto = Inr r \<and>
            meta_total (meta r) =
              int (length (filter (Professor_matches (findAll_where dto)) db)) \<and>
            (\<forall>d\<in>set (data r).
               (case minRating dto of None \<Rightarrow> True | Some lo \<Rightarrow> lo \<le> res_averageRating d) \<and>
               (case maxRating dto of None \<Rightarrow> True | Some hi \<Rightarrow> res_averageRating d \<le> hi))"
    using r bounds by simp
  then show ?thesis using matches_rating[of dto] by blast
qed

theorem findAll_rating_bounds_witness:
  "valid_dto (empty_criteria\<lparr>minRating := Some 3, maxRating := Some (9 / 2)\<rparr>) \<and>
   within_store_ranges (empty_criteria\<lparr>minRating := Some 3, maxRating := Some (9 / 2)\<rparr>) \<and>
   (\<exists>r. findAll example_ratings (empty_criteria\<lparr>minRating := Some 3, maxRating := Some (9 / 2)\<rparr>) = Inr r \<and>
        meta_total (meta r) = 2 \<and> map res_averageRating (data r) = [9 / 2, 3])"
proof -
  let ?dto = "empty_criteria\<lparr>minRating := Some 3, maxRating := Some (9 / 2)\<rparr>"
  have v: "valid_dto ?dto" by code_simp
  have w: "within_store_ranges ?dto" by code_simp
  have c: "int (length (filter (Professor_matches (findAll_where ?dto)) example_ratings)) = 2"
    by code_simp
  from findAll_rating_bounds[OF v w, of example_ratings] obtain r where
    r: "findAll example_ratings ?dto = Inr r" and t: "meta_total (meta r) = 2"
    using c by auto
  have e: "findAll example_ratings ?dto =
      Inr \<lparr>data = [\<lparr>res_id = 4, res_fullName = ''N'', res_averageRating = 9 / 2, res_reviewCount = 0,
                      res_universities = [], res_faculties = []\<rparr>,
                    \<lparr>res_id = 3, res_fullName = ''N'', res_averageRating = 3, res_reviewCount = 0,
                      res_universities = [], res_faculties = []\<rparr>],
           meta = \<lparr>meta_total = 2, meta_page = 1, meta_lastPage = Finite 1, meta_limit = 20\<rparr>\<rparr>"
    by code_simp
  have "map res_averageRating (data r) = [9 / 2, 3]" using r e by auto
  then have "findAll example_ratings ?dto = Inr r \<and> meta_total (meta r) = 2 \<and>
             map res_averageRating (data r) = [9 / 2, 3]"
    using r t by simp
  then have "\<exists>r. findAll example_ratings ?dto = Inr r \<and> meta_total (meta r) = 2 \<and>
             map res_averageRating (data r) = [9 / 2, 3]" ..
  then show ?thesis using v w by blast
qed

subsection \<open>No criteria\<close>

text \<open>
  C7. With no criteria, page or limit supplied, \<open>findAll\<close> returns; every professor
  satisfies the filter; the offset is 0, the page 1 and the limit 20; \<open>total\<close> is the
  size of the store; \<open>data\<close> is the projection of the first 20 rows of the store
  ordered by \<open>averageRating\<close> descending (a permutation of the store), so \<open>data\<close> is
  itself in descending order of rating and has at most 20 entries.
\<close>

theorem findAll_empty_criteria:
  "\<exists>r. findAll db empty_criteria = Inr r \<and>
        (\<forall>p. Professor_matches (findAll_where empty_criteria) p) \<and>
        findAll_skip empty_criteria = 0 \<and>
        meta_page (meta r) = 1 \<and> meta_limit (meta r) = 20 \<and>
        meta_total (meta r) = int (length db) \<and>
        list_all2 (\<lambda>p d. mapToProfessorResponse (include_summary p) = Inr d)
          (take 20 (orderBy_averageRating_desc db)) (data r) \<and>
        mset (orderBy_averageRating_desc db) = mset db \<and>
        sorted_wrt (\<lambda>a b. prof_averageRating b \<le> prof_averageRating a)
          (orderBy_averageRating_desc db) \<and>
        sorted_wrt (\<lambda>a b. res_averageRating b \<le> res_averageRating a) (data r) \<and>
        length (data r) \<le> 20"
proof -
  have wh: "findAll_where empty_criteria =
     \<lparr>where_fullName = None, where_averageRating = None, where_reviewCount = None,
      where_universities = None, where_faculties = None\<rparr>"
    by (simp add: findAll_where_def where_relations_def where_reviews_def where_rating_def
        where_name_def universityFilter_def facultyFilter_def departmentFilter_def
        parsedUniversityId_def parsedFacultyId_def parsedMinRating_def parsedMaxRating_def
        parsedMinReviews_def truthy_number_def empty_criteria_def)
  have all: "Professor_matches (findAll_where empty_criteria) p" for p
    by (simp add: wh Professor_matches_def)
  have pp: "parsedPage empty_criteria = 1" and pl: "parsedLimit empty_criteria = 20"
    by (simp_all add: parsedPage_def parsedLimit_def empty_criteria_def)
  have sk: "findAll_skip empty_criteria = 0" by (simp add: findAll_skip_def pp js_double_small)
  have f: "filter (Professor_matches (findAll_where empty_criteria)) db = db"
    using all by simp
  have wr: "where_in_range (findAll_where empty_criteria)"
    by (simp add: wh where_in_range_def opt_in_int32_def)
  from findAll_succeeds[of empty_criteria db] obtain ds where
    r: "findAll db empty_criteria =
           Inr \<lparr>data = ds,
                meta = \<lparr>meta_total = int (length db),
                        meta_page = 1,
                        meta_lastPage = Math_ceil (js_div (int (length db)) 20),
                        meta_limit = 20\<rparr>\<rparr>"
    and d: "list_all2 (\<lambda>p d. mapToProfessorResponse (include_summary p) = Inr d)
              (take 20 (orderBy_averageRating_desc db)) ds"
    by (auto simp: wr sk pp pl f)
  have perm: "mset (orderBy_averageRating_desc db) = mset db"
    by (simp add: orderBy_averageRating_desc_def)
  have srt: "sorted_wrt (\<lambda>a b. prof_averageRating b \<le> prof_averageRating a)
               (take 20 (orderBy_averageRating_desc db))"
    using orderBy_desc_sorted by (rule sorted_wrt_take)
  have "sorted_wrt (\<lambda>a b. b \<le> a) (map prof_averageRating (take 20 (orderBy_averageRating_desc db)))"
    using srt by (simp add: sorted_wrt_map)
  then have "sorted_wrt (\<lambda>a b. b \<le> a) (map res_averageRating ds)"
    using summary_ratings[OF d] by simp
  then have sd: "sorted_wrt (\<lambda>a b. res_averageRating b \<le> res_averageRating a) ds"
    by (simp add: sorted_wrt_map)
  have "length ds = length (take 20 (orderBy_averageRating_desc db))"
    using d by (metis list_all2_lengthD)
  then have len: "length ds \<le> 20" by simp
  show ?thesis using r all sk d perm orderBy_desc_sorted sd len by simp
qed

theorem findAll_empty_criteria_witness:
  "\<exists>r. findAll example_ratings empty_criteria = Inr r \<and> meta_total (meta r) = 4 \<and>
        meta_page (meta r) = 1 \<and> meta_limit (meta r) = 20 \<and> length (data r) = 4"
proof -
  from findAll_empty_criteria[of example_ratings] obtain r where
    r: "findAll example_ratings empty_criteria = Inr r"
       "meta_page (meta r) = 1" "meta_limit (meta r) = 20"
       "meta_total (meta r) = int (length example_ratings)"
       "list_all2 (\<lambda>p d. mapToProfessorResponse (include_summary p) = Inr d)
          (take 20 (orderBy_averageRating_desc example_ratings)) (data r)"
    by blast
  have n: "length example_ratings = 4" by (simp add: example_ratings_def)
  have "length (data r) = length (take 20 (orderBy_averageRating_desc example_ratings))"
    using r(5) by (metis list_all2_lengthD)
  then have l: "length (data r) = 4" by (simp add: orderBy_averageRating_desc_def n)
  have "findAll example_ratings empty_criteria = Inr r \<and> meta_total (meta r) = 4 \<and>
        meta_page (meta r) = 1 \<and> meta_limit (meta r) = 20 \<and> length (data r) = 4"
    using r(1-4) n l by simp
  then show ?thesis ..
qed

subsection \<open>Projectors and relations that were not loaded\<close>

text \<open>
  C8. For every professor record fetched by \<open>findMany\<close> or \<open>findUnique\<close>, both
  projectors succeed, and a relation array that is missing in the record gives the
  empty sequence in the DTO. (The fetched records always carry \<open>universities\<close> and
  \<open>faculties\<close>; the records of \<open>findMany\<close> lack \<open>courses\<close>, \<open>tags\<close> and \<open>reviews\<close>. The
  summary DTO has the relation fields \<open>universities\<close> and \<open>faculties\<close> only.)
\<close>

theorem projectors_missing_relations:
  assumes "(professor_findMany wh skip tk db = Inr recs \<and> professor \<in> set recs) \<or>
           professor_findUnique i db = Inr (Some professor)"
  shows "(\<exists>d. mapToProfessorResponse professor = Inr d \<and>
              (universities professor = None \<longrightarrow> res_universities d = []) \<and>
              (faculties professor = None \<longrightarrow> res_faculties d = [])) \<and>
         (\<exists>d. mapToProfessorDetailResponse professor = Inr d \<and>
              (universities professor = None \<longrightarrow> res_universities d = []) \<and>
              (faculties professor = None \<longrightarrow> res_faculties d = []) \<and>
              (courses professor = None \<longrightarrow> res_courses d = []) \<and>
              (tags professor = None \<longrightarrow> res_tags d = []) \<and>
              (reviews professor = None \<longrightarrow> res_reviews d = [])) \<and>
         universities professor \<noteq> None \<and> faculties professor \<noteq> None"
proof -
  from assms have "(\<exists>p. professor = include_summary p) \<or> (\<exists>p. professor = include_detail p)"
    using findMany_rows findUnique_row by blast
  then obtain us fs where u: "universities professor = Some us" and f: "faculties professor = Some fs"
    by (auto simp: include_summary_def include_detail_def)
  show ?thesis using u f
    by (simp add: mapToProfessorResponse_def mapToProfessorDetailResponse_def or_empty_def)
qed

theorem projectors_missing_relations_witness:
  "professor_findMany (findAll_where empty_criteria) 0 20 [example_professor] =
     Inr [include_summary example_professor] \<and>
   include_summary example_professor \<in> set [include_summary example_professor] \<and>
   courses (include_summary example_professor) = None \<and>
   tags (include_summary example_professor) = None \<and>
   reviews (include_summary example_professor) = None \<and>
   (\<exists>d. mapToProfessorDetailResponse (include_summary example_professor) = Inr d \<and>
        res_courses d = [] \<and> res_tags d = [] \<and> res_reviews d = []) \<and>
   (\<exists>d. mapToProfessorResponse (include_summary example_professor) = Inr d)"
proof -
  let ?p = "include_summary example_professor"
  have fm: "professor_findMany (findAll_where empty_criteria) 0 20 [example_professor] = Inr [?p]"
    by code_simp
  have m: "?p \<in> set [?p]" by simp
  have c: "courses ?p = None" and t: "tags ?p = None" and r: "reviews ?p = None"
    by (simp_all add: include_summary_def)
  have h: "(professor_findMany (findAll_where empty_criteria) 0 20 [example_professor] = Inr [?p] \<and>
            ?p \<in> set [?p]) \<or> professor_findUnique 7 [example_professor] = Inr (Some ?p)"
    using fm m by simp
  from projectors_missing_relations[OF h] show ?thesis using fm c t r by auto
qed

subsection \<open>A page beyond the last one\<close>

text \<open>
  C9, as amended. For a validated search within the store's ranges, on a store of
  fewer than \<open>2^53\<close> rows, whose page number exceeds the last page \<open>\<lceil>total / limit\<rceil>\<close>,
  \<open>findAll\<close> raises nothing: it returns a response with an empty \<open>data\<close>, the offset
  being at or beyond the count, while \<open>meta.total\<close> is the number of matching rows and
  \<open>meta.lastPage\<close> its ceiling quotient by the limit.
\<close>

theorem findAll_page_beyond_last:
  assumes "valid_dto dto" and "within_store_ranges dto" and "int (length db) < 2 ^ 53"
    and "\<lceil>(of_nat (length (filter (Professor_matches (findAll_where dto)) db)) :: rat)
            / of_int (parsedLimit dto)\<rceil> < parsedPage dto"
  shows "\<exists>r. findAll db dto = Inr r \<and> data r = [] \<and>
           meta_total (meta r) = int (length (filter (Professor_matches (findAll_where dto)) db)) \<and>
           meta_lastPage (meta r) =
             Finite (of_int \<lceil>(of_int (meta_total (meta r)) :: rat) / of_int (parsedLimit dto)\<rceil>) \<and>
           meta_total (meta r) \<le> findAll_skip dto"
proof -
  let ?m = "filter (Professor_matches (findAll_where dto)) db"
  let ?t = "int (length ?m)"
  let ?l = "parsedLimit dto"
  define n where "n = \<lceil>(of_nat (length ?m) :: rat) / of_int ?l\<rceil>"
  from valid_dto_window[OF assms(1)] have l1: "1 \<le> ?l" by simp
  have lpos: "0 < ?l" and l0: "0 \<le> ?l" and lne: "?l \<noteq> 0" using l1 by simp_all
  have t0: "0 \<le> ?t" by simp
  have "length ?m \<le> length db" by simp
  then have t53: "?t < 2 ^ 53" using assms(3) by linarith
  have tn: "?t \<le> n * ?l" and nt: "(n - 1) * ?l < ?t"
    unfolding n_def using ceiling_pages[OF lpos, of ?t] by (simp_all only: of_int_of_nat_eq)
  have n0: "0 \<le> n"
  proof (rule ccontr)
    assume "\<not> 0 \<le> n"
    then have "n \<le> - 1" by linarith
    then have "n * ?l \<le> - 1 * ?l" using l0 by (rule mult_right_mono)
    then show False using tn t0 lpos by linarith
  qed
  have n_le_t: "n \<le> ?t"
  proof (cases "n = 0")
    case True
    then show ?thesis by simp
  next
    case False
    then have "0 \<le> n - 1" using n0 by linarith
    then have "(n - 1) * 1 \<le> (n - 1) * ?l" using l1 by (intro mult_left_mono) simp_all
    then have "n - 1 \<le> (n - 1) * ?l" by simp
    then have "n - 1 < ?t" using nt by (rule le_less_trans)
    then show ?thesis by linarith
  qed
  have n53: "n < 2 ^ 53" using n_le_t t53 by (rule le_less_trans)
  have "n < parsedPage dto" using assms(4) by (simp only: n_def)
  then have "n \<le> parsedPage dto - 1" by linarith
  then have "n \<le> js_double (parsedPage dto - 1)" using n0 n53 by (intro js_double_ge)
  then have "n * ?l \<le> js_double (parsedPage dto - 1) * ?l" using l0 by (rule mult_right_mono)
  then have "?t \<le> js_double (parsedPage dto - 1) * ?l" using tn by linarith
  then have beyond: "?t \<le> findAll_skip dto"
    unfolding findAll_skip_def using t0 t53 by (intro js_double_ge)
  then have len: "length ?m \<le> nat (findAll_skip dto)" by simp
  have rows: "take (nat ?l) (drop (nat (findAll_skip dto)) (orderBy_averageRating_desc ?m)) = []"
    using len by (simp add: orderBy_averageRating_desc_def)
  from findAll_in_range[OF assms(1,2), of db] obtain ds where
    r: "findAll db dto =
           Inr \<lparr>data = ds,
                meta = \<lparr>meta_total = ?t, meta_page = parsedPage dto,
                        meta_lastPage = Math_ceil (js_div ?t ?l),
                        meta_limit = ?l\<rparr>\<rparr>"
    and d: "list_all2 (\<lambda>p d. mapToProfessorResponse (include_summary p) = Inr d)
              (take (nat ?l) (drop (nat (findAll_skip dto)) (orderBy_averageRating_desc ?m))) ds"
    by blast
  have "ds = []" using d rows by simp
  then show ?thesis using r beyond lastPage_ceiling[OF lne, of ?t] by simp
qed

theorem findAll_page_beyond_last_witness:
  "valid_dto (empty_criteria\<lparr>page := Some 3, limit := Some 2\<rparr>) \<and>
   within_store_ranges (empty_criteria\<lparr>page := Some 3, limit := Some 2\<rparr>) \<and>
   int (length example_ratings) < 2 ^ 53 \<and>
   (\<exists>r. findAll example_ratings (empty_criteria\<lparr>page := Some 3, limit := Some 2\<rparr>) = Inr r \<and>
        data r = [] \<and> meta_total (meta r) = 4 \<and> meta_lastPage (meta r) = Finite 2)"
proof -
  let ?dto = "empty_criteria\<lparr>page := Some 3, limit := Some 2\<rparr>"
  have v: "valid_dto ?dto" by code_simp
  have w: "within_store_ranges ?dto" by code_simp
  have n: "int (length example_ratings) < 2 ^ 53" by (simp add: example_ratings_def)
  have c: "int (length (filter (Professor_matches (findAll_where ?dto)) example_ratings)) = 4"
    by code_simp
  have pl: "parsedLimit ?dto = 2" and pp: "parsedPage ?dto = 3" by code_simp+
  have c': "length (filter (Professor_matches (findAll_where ?dto)) example_ratings) = 4"
    using c by simp
  have h: "\<lceil>(of_nat (length (filter (Professor_matches (findAll_where ?dto)) example_ratings)) :: rat)
              / of_int (parsedLimit ?dto)\<rceil> < parsedPage ?dto"
    unfolding c' pl pp by simp
  from findAll_page_beyond_last[OF v w n h] obtain r where
    r: "findAll example_ratings ?dto = Inr r" "data r = []"
       "meta_total (meta r) =
          int (length (filter (Professor_matches (findAll_where ?dto)) example_ratings))"
       "meta_lastPage (meta r) =
          Finite (of_int \<lceil>(of_int (meta_total (meta r)) :: rat) / of_int (parsedLimit ?dto)\<rceil>)"
    by blast
  have t: "meta_total (meta r) = 4" using r(3) c by simp
  have lp: "meta_lastPage (meta r) = Finite 2" using r(4) by (simp add: t pl)
  have "findAll example_ratings ?dto = Inr r \<and> data r = [] \<and> meta_total (meta r) = 4 \<and>
        meta_lastPage (meta r) = Finite 2"
    using r(1,2) t lp by simp
  then have "\<exists>r. findAll example_ratings ?dto = Inr r \<and> data r = [] \<and>
        meta_total (meta r) = 4 \<and> meta_lastPage (meta r) = Finite 2" ..
  then show ?thesis using v w n by blast
qed

text \<open>
  C9 as stated fails: \<open>page = 10^17\<close> with \<open>limit = 100\<close> passes the validation and
  exceeds the last page 1, the offset \<open>10^19\<close> does not fit 64 bits, and \<open>findAll\<close>
  raises the error of the store client.
\<close>

theorem findAll_page_beyond_last_counterexample:
  "valid_dto (empty_criteria\<lparr>page := Some 100000000000000000, limit := Some 100\<rparr>) \<and>
   professor_count
     (findAll_where (empty_criteria\<lparr>page := Some 100000000000000000, limit := Some 100\<rparr>))
     example_ratings = Inr 4 \<and>
   Math_ceil (js_div 4 100) = Finite 1 \<and>
   findAll_skip (empty_criteria\<lparr>page := Some 100000000000000000, limit := Some 100\<rparr>) =
     10000000000000000000 \<and>
   findAll example_ratings (empty_criteria\<lparr>page := Some 100000000000000000, limit := Some 100\<rparr>) =
     Inl PrismaClientError"
  by code_simp

subsection \<open>Falsy criteria\<close>

text \<open>
  C10. A \<open>universityId\<close> or \<open>facultyId\<close> of 0 and an empty \<open>name\<close> or \<open>department\<close>
  build the same filter, and give the same result of \<open>findAll\<close>, as the absent
  criterion; the filter then has no \<open>universities\<close>, \<open>faculties\<close> or \<open>fullName\<close>
  constraint from it.
\<close>

theorem findAll_falsy_criteria_absent:
  "findAll_where (dto\<lparr>universityId := Some 0\<rparr>) = findAll_where (dto\<lparr>universityId := None\<rparr>) \<and>
   findAll_where (dto\<lparr>facultyId := Some 0\<rparr>) = findAll_where (dto\<lparr>facultyId := None\<rparr>) \<and>
   findAll_where (dto\<lparr>name := Some ''''\<rparr>) = findAll_where (dto\<lparr>name := None\<rparr>) \<and>
   findAll_where (dto\<lparr>department := Some ''''\<rparr>) = findAll_where (dto\<lparr>department := None\<rparr>) \<and>
   findAll db (dto\<lparr>universityId := Some 0\<rparr>) = findAll db (dto\<lparr>universityId := None\<rparr>) \<and>
   findAll db (dto\<lparr>facultyId := Some 0\<rparr>) = findAll db (dto\<lparr>facultyId := None\<rparr>) \<and>
   findAll db (dto\<lparr>name := Some ''''\<rparr>) = findAll db (dto\<lparr>name := None\<rparr>) \<and>
   findAll db (dto\<lparr>department := Some ''''\<rparr>) = findAll db (dto\<lparr>department := None\<rparr>) \<and>
   where_universities (findAll_where (dto\<lparr>universityId := Some 0, department := Some ''''\<rparr>)) = None \<and>
   where_universities (findAll_where (dto\<lparr>universityId := Some 0, department := None\<rparr>)) = None \<and>
   where_faculties (findAll_where (dto\<lparr>facultyId := Some 0\<rparr>)) = None \<and>
   where_fullName (findAll_where (dto\<lparr>name := Some ''''\<rparr>)) = None"
proof -
  have a: "findAll db (dto\<lparr>universityId := Some 0\<rparr>) = findAll db (dto\<lparr>universityId := None\<rparr>)"
    by (rule findAll_cong) (simp_all add: where_universityId_zero)
  have b: "findAll db (dto\<lparr>facultyId := Some 0\<rparr>) = findAll db (dto\<lparr>facultyId := None\<rparr>)"
    by (rule findAll_cong) (simp_all add: where_facultyId_zero)
  have c: "findAll db (dto\<lparr>name := Some ''''\<rparr>) = findAll db (dto\<lparr>name := None\<rparr>)"
    by (rule findAll_cong) (simp_all add: where_name_empty)
  have d: "findAll db (dto\<lparr>department := Some ''''\<rparr>) = findAll db (dto\<lparr>department := None\<rparr>)"
    by (rule findAll_cong) (simp_all add: where_department_empty)
  show ?thesis
    by (intro conjI)
       (rule where_universityId_zero where_facultyId_zero where_name_empty where_department_empty
          a b c d where_falsy_unconstrained)+
qed

theorem findAll_falsy_criteria_absent_witness:
  "findAll [example_professor] (empty_criteria\<lparr>universityId := Some 0\<rparr>) =
     findAll [example_professor] empty_criteria \<and>
   (\<exists>r. findAll [example_professor] (empty_criteria\<lparr>universityId := Some 0\<rparr>) = Inr r \<and>
        meta_total (meta r) = 1)"
proof -
  have n: "empty_criteria\<lparr>universityId := None\<rparr> = empty_criteria"
    by (simp add: empty_criteria_def)
  from findAll_falsy_criteria_absent[of empty_criteria "[example_professor]"]
  have e: "findAll [example_professor] (empty_criteria\<lparr>universityId := Some 0\<rparr>) =
           findAll [example_professor] empty_criteria"
    by (simp only: n)
  have v: "findAll [example_professor] empty_criteria =
     Inr \<lparr>data =
            [\<lparr>res_id = 7, res_fullName = ''P'', res_averageRating = 4, res_reviewCount = 2,
              res_universities =
                [\<lparr>ud_id = 1, ud_name = ''A'', ud_acronym = ''UA''\<rparr>,
                 \<lparr>ud_id = 2, ud_name = ''B'', ud_acronym = ''UB''\<rparr>],
              res_faculties = []\<rparr>],
          meta = \<lparr>meta_total = 1, meta_page = 1, meta_lastPage = Finite 1, meta_limit = 20\<rparr>\<rparr>"
    by code_simp
  show ?thesis unfolding e v by simp
qed

end
